theory Spec2Isabelle
  imports Main
begin

section \<open>JavaScript strings\<close>

text \<open>
  A JavaScript string is a sequence of UTF-16 code units; \<open>length\<close>, \<open>includes\<close>,
  \<open>startsWith\<close>, \<open>endsWith\<close> and the regular expressions of the source (none has the
  \<open>u\<close> flag) all work on code units. A code unit is a natural number below 65536.
  Every non-ASCII character of the source lies in the Basic Multilingual Plane, so each
  is one code unit, written here as a hexadecimal numeral.
\<close>

type_synonym jsstring = "nat list"

definition js :: "string \<Rightarrow> jsstring" where
  \<comment> \<open>an ASCII literal of the source\<close>
  "js s = map of_char s"

definition startsWith :: "jsstring \<Rightarrow> jsstring \<Rightarrow> bool" where
  "startsWith text w = (take (length w) text = w)"

definition endsWith :: "jsstring \<Rightarrow> jsstring \<Rightarrow> bool" where
  "endsWith text w =
     (length w \<le> length text \<and> drop (length text - length w) text = w)"

fun includes_str :: "jsstring \<Rightarrow> jsstring \<Rightarrow> bool" where
  "includes_str [] w = (w = [])"
| "includes_str (c # cs) w = (startsWith (c # cs) w \<or> includes_str cs w)"

fun in_ranges :: "nat \<Rightarrow> (nat \<times> nat) list \<Rightarrow> bool" where
  "in_ranges c [] = False"
| "in_ranges c ((lo, hi) # rs) = ((lo \<le> c \<and> c \<le> hi) \<or> in_ranges c rs)"

definition whiteSpace :: "(nat \<times> nat) list" where
  \<comment> \<open>ECMAScript WhiteSpace and LineTerminator: what \<open>trim\<close> strips and \<open>\s\<close> matches\<close>
  "whiteSpace =
     [(0x09, 0x0D), (0x20, 0x20), (0xA0, 0xA0), (0x1680, 0x1680), (0x2000, 0x200A),
      (0x2028, 0x2029), (0x202F, 0x202F), (0x205F, 0x205F), (0x3000, 0x3000),
      (0xFEFF, 0xFEFF)]"

definition lineTerminator :: "(nat \<times> nat) list" where
  \<comment> \<open>the code units that \<open>.\<close> does not match\<close>
  "lineTerminator = [(0x0A, 0x0A), (0x0D, 0x0D), (0x2028, 0x2029)]"

definition trim :: "jsstring \<Rightarrow> jsstring" where
  "trim text =
     rev (dropWhile (\<lambda>c. in_ranges c whiteSpace)
       (rev (dropWhile (\<lambda>c. in_ranges c whiteSpace) text)))"

definition js_or :: "jsstring \<Rightarrow> jsstring \<Rightarrow> jsstring" where
  \<comment> \<open>\<open>a || b\<close> on strings: the empty string is the only falsy string\<close>
  "js_or a b = (if a = [] then b else a)"

definition fromCharCode :: "nat \<Rightarrow> jsstring" where
  \<comment> \<open>\<open>String.fromCharCode(n)\<close>: the one code unit \<open>n\<close> modulo 65536\<close>
  "fromCharCode n = [n mod 65536]"


section \<open>Regular expressions\<close>

text \<open>
  The regular expressions of the source use character classes, concatenation,
  alternation, \<open>*\<close>, \<open>+\<close>, \<open>?\<close> and the anchors \<open>^\<close> and \<open>$\<close> (never the \<open>m\<close>
  flag, so the anchors mean the ends of the string). They are only ever asked whether
  they match (\<open>test\<close>, or \<open>match(...) !== null\<close> without the \<open>g\<close> flag), and without
  back-references or look-around the backtracking search of JavaScript finds a match
  exactly when some substring belongs to the language of the expression. The language
  is decided here by derivatives.
\<close>

datatype regex =
    Chars "(nat \<times> nat) list"
  | NotChars "(nat \<times> nat) list"
  | Empty
  | Cat regex regex
  | Or regex regex
  | Many regex

fun nullable :: "regex \<Rightarrow> bool" where
  "nullable (Chars rs) = False"
| "nullable (NotChars rs) = False"
| "nullable Empty = True"
| "nullable (Cat r s) = (nullable r \<and> nullable s)"
| "nullable (Or r s) = (nullable r \<or> nullable s)"
| "nullable (Many r) = True"

fun deriv :: "nat \<Rightarrow> regex \<Rightarrow> regex" where
  "deriv c (Chars rs) = (if in_ranges c rs then Empty else Chars [])"
| "deriv c (NotChars rs) = (if in_ranges c rs then Chars [] else Empty)"
| "deriv c Empty = Chars []"
| "deriv c (Cat r s) =
     (if nullable r then Or (Cat (deriv c r) s) (deriv c s) else Cat (deriv c r) s)"
| "deriv c (Or r s) = Or (deriv c r) (deriv c s)"
| "deriv c (Many r) = Cat (deriv c r) (Many r)"

fun matches :: "regex \<Rightarrow> jsstring \<Rightarrow> bool" where
  "matches r [] = nullable r"
| "matches r (c # cs) = matches (deriv c r) cs"

definition Lit :: "nat \<Rightarrow> regex" where
  "Lit c = Chars [(c, c)]"

definition Str :: "jsstring \<Rightarrow> regex" where
  "Str w = foldr (\<lambda>c r. Cat (Lit c) r) w Empty"

definition Dot :: regex where
  "Dot = NotChars lineTerminator"

definition AnyUnit :: regex where
  "AnyUnit = NotChars []"

definition Some1 :: "regex \<Rightarrow> regex" where
  \<comment> \<open>\<open>r+\<close>\<close>
  "Some1 r = Cat r (Many r)"

definition Maybe :: "regex \<Rightarrow> regex" where
  \<comment> \<open>\<open>r?\<close>\<close>
  "Maybe r = Or Empty r"

definition Cats :: "regex list \<Rightarrow> regex" where
  "Cats rs = foldr Cat rs Empty"

definition digit :: "(nat \<times> nat) list" where
  \<comment> \<open>\<open>\d\<close>\<close>
  "digit = [(0x30, 0x39)]"

text \<open>
  A pattern is a regex literal: whether it starts with \<open>^\<close>, its body, whether it ends
  with \<open>$\<close>. Without an anchor the match may start, or end, anywhere.
\<close>

datatype pattern = Pattern bool regex bool

fun test :: "pattern \<Rightarrow> jsstring \<Rightarrow> bool" where
  "test (Pattern from_start r to_end) text =
     matches
       (Cat (if from_start then Empty else Many AnyUnit)
         (Cat r (if to_end then Empty else Many AnyUnit)))
       text"


definition OneOf :: "jsstring \<Rightarrow> (nat \<times> nat) list" where
  \<comment> \<open>the class of the listed code units\<close>
  "OneOf w = map (\<lambda>c. (c, c)) w"


section \<open>The document parser (services/documentParser.js)\<close>

datatype sectionType = TypeText | TypeSubtitle | TypeImage | TypeOther

record Section =
  stype :: sectionType
  content :: jsstring
  position :: nat

record imageInfo =
  isImage :: bool
  caption :: jsstring

subsection \<open>\<open>_isImagePlaceholder\<close>\<close>

definition imageMarkers :: "jsstring list" where
  \<comment> \<open>\<open>[tu pian]\<close>, \<open>[image]\<close>, \<open>[img]\<close> and the same three in full-width brackets\<close>
  "imageMarkers =
     [[0x005B, 0x56FE, 0x7247, 0x005D], js ''[image]'', js ''[img]'',
      [0x3010, 0x56FE, 0x7247, 0x3011],
      [0x3010] @ js ''image'' @ [0x3011], [0x3010] @ js ''img'' @ [0x3011]]"

definition hasImageMarker :: "jsstring \<Rightarrow> bool" where
  "hasImageMarker text = list_ex (\<lambda>marker. includes_str text marker) imageMarkers"

definition tu :: nat where
  \<comment> \<open>the character \<open>tu\<close> (figure), U+56FE\<close>
  "tu = 0x56FE"

definition oneToNine :: jsstring where
  \<comment> \<open>the CJK numerals one to nine\<close>
  "oneToNine = [0x4E00, 0x4E8C, 0x4E09, 0x56DB, 0x4E94, 0x516D, 0x4E03, 0x516B, 0x4E5D]"

definition hasTuWord :: "jsstring \<Rightarrow> bool" where
  "hasTuWord text = includes_str text [tu]"

definition matchesNumberPattern :: "jsstring \<Rightarrow> bool" where
  \<comment> \<open>\<open>/tu\s*\d+/\<close>, \<open>/tu\s*[1-9 in CJK]/\<close>, \<open>/tu\s*[A-Za-z]/\<close>\<close>
  "matchesNumberPattern text =
     (test (Pattern False (Cats [Lit tu, Many (Chars whiteSpace), Some1 (Chars digit)]) False) text
      \<or> test (Pattern False (Cats [Lit tu, Many (Chars whiteSpace), Chars (OneOf oneToNine)]) False) text
      \<or> test (Pattern False
            (Cats [Lit tu, Many (Chars whiteSpace), Chars [(0x41, 0x5A), (0x61, 0x7A)]]) False) text)"

definition isImageOnly :: "jsstring \<Rightarrow> bool" where
  \<comment> \<open>the whole line is \<open>tu pian\<close> or \<open>tu xiang\<close>\<close>
  "isImageOnly text = (trim text = [0x56FE, 0x7247] \<or> trim text = [0x56FE, 0x50CF])"

definition imageCaptionKeywords :: "jsstring list" where
  "imageCaptionKeywords =
     [[0x6CE8, 0x91CA], [0x8BF4, 0x660E], [0x5907, 0x6CE8], [0x63CF, 0x8FF0],
      js ''caption'', [0x56FE, 0x6CE8], [0x914D, 0x56FE], [0x63D2, 0x56FE]]"

definition hasImageCaptionKeyword :: "jsstring \<Rightarrow> bool" where
  "hasImageCaptionKeyword text =
     list_ex (\<lambda>keyword. includes_str text keyword) imageCaptionKeywords"

definition isImageCaptionFormat :: "jsstring \<Rightarrow> bool" where
  \<comment> \<open>\<open>/^\d+[\.\,]/\<close> with the ideographic comma U+3001\<close>
  "isImageCaptionFormat text =
     test (Pattern True (Cats [Some1 (Chars digit), Chars (OneOf [0x2E, 0x3001])]) False)
       (trim text)"

definition imageDescriptionPatterns :: "pattern list" where
  \<comment> \<open>\<open>/.*tu.*zhanshi.*/\<close>, \<open>/.*tu.*xianshi.*/\<close>, \<open>/.*rutu.*/\<close>,
      \<open>/.*tupian.*[zhan|xian]shi.*/\<close>, \<open>/.*chatu.*/\<close>, \<open>/.*peitu.*/\<close>\<close>
  "imageDescriptionPatterns =
     [Pattern False (Cats [Many Dot, Lit tu, Many Dot, Str [0x5C55, 0x793A], Many Dot]) False,
      Pattern False (Cats [Many Dot, Lit tu, Many Dot, Str [0x663E, 0x793A], Many Dot]) False,
      Pattern False (Cats [Many Dot, Str [0x5982, 0x56FE], Many Dot]) False,
      Pattern False
        (Cats [Many Dot, Str [0x56FE, 0x7247], Many Dot,
               Chars (OneOf [0x5C55, 0x7C, 0x663E]), Lit 0x793A, Many Dot]) False,
      Pattern False (Cats [Many Dot, Str [0x63D2, 0x56FE], Many Dot]) False,
      Pattern False (Cats [Many Dot, Str [0x914D, 0x56FE], Many Dot]) False]"

definition matchesImageDescription :: "jsstring \<Rightarrow> bool" where
  "matchesImageDescription text =
     list_ex (\<lambda>pattern. test pattern text) imageDescriptionPatterns"

definition startsWithTu :: "jsstring \<Rightarrow> bool" where
  "startsWithTu text = startsWith (trim text) [tu]"

definition tuCaptionPattern :: pattern where
  \<comment> \<open>\<open>/^tu[\d 1-9 in CJK]+[\s\u3000]+.+/\<close>\<close>
  "tuCaptionPattern =
     Pattern True
       (Cats [Lit tu, Some1 (Chars (digit @ OneOf oneToNine)),
              Some1 (Chars (whiteSpace @ [(0x3000, 0x3000)])), Some1 Dot]) False"

definition isImagePlaceholder :: "jsstring \<Rightarrow> imageInfo" where
  "isImagePlaceholder text =
     (if hasImageMarker text then \<lparr>isImage = True, caption = text\<rparr>
      else if hasTuWord text \<and> matchesNumberPattern text then \<lparr>isImage = True, caption = text\<rparr>
      else if isImageOnly text then \<lparr>isImage = True, caption = text\<rparr>
      else if hasImageCaptionKeyword text then \<lparr>isImage = True, caption = text\<rparr>
      else if isImageCaptionFormat text then \<lparr>isImage = True, caption = text\<rparr>
      else if matchesImageDescription text then \<lparr>isImage = True, caption = text\<rparr>
      else if startsWithTu text then \<lparr>isImage = True, caption = text\<rparr>
      else if hasTuWord text \<and> test tuCaptionPattern (trim text)
        then \<lparr>isImage = True, caption = text\<rparr>
      else \<lparr>isImage = False, caption = []\<rparr>)"

subsection \<open>\<open>_isSubtitle\<close>\<close>

definition shortText :: "jsstring \<Rightarrow> bool" where
  "shortText text = (length text \<le> 30)"

definition subtitleKeywords :: "jsstring list" where
  "subtitleKeywords =
    [[0x4ECB, 0x7ECD], [0x6982, 0x8FF0], [0x603B, 0x7ED3], [0x7ED3, 0x8BBA],
     [0x65B9, 0x6CD5], [0x6B65, 0x9AA4], [0x6CE8, 0x610F], [0x8981, 0x70B9],
     [0x80CC, 0x666F], [0x76EE, 0x7684], [0x610F, 0x4E49], [0x95EE, 0x9898],
     [0x5206, 0x6790], [0x8BA8, 0x8BBA], [0x7ED3, 0x679C], [0x5EFA, 0x8BAE],
     [0x7B2C, 0x4E00, 0x7AE0], [0x7B2C, 0x4E8C, 0x7AE0], [0x7B2C, 0x4E09, 0x7AE0],
     [0x7B2C, 0x56DB, 0x7AE0], [0x7B2C, 0x4E94, 0x7AE0], [0x7B2C, 0x516D, 0x7AE0],
     [0x7B2C, 0x4E03, 0x7AE0], [0x7B2C, 0x516B, 0x7AE0], [0x7B2C, 0x4E5D, 0x7AE0],
     [0x4E00, 0x3001], [0x4E8C, 0x3001], [0x4E09, 0x3001],
     [0x56DB, 0x3001], [0x4E94, 0x3001], [0x516D, 0x3001], [0x4E03, 0x3001],
     [0x516B, 0x3001], [0x4E5D, 0x3001],
     [0x9996, 0x5148], [0x5176, 0x6B21], [0x6700, 0x540E],
     [0x7B2C, 0x4E00], [0x7B2C, 0x4E8C], [0x7B2C, 0x4E09],
     [0x52A9, 0x529B], [0x966A, 0x4F34], [0x6210, 0x957F], [0x8BFE, 0x5802],
     [0x6559, 0x5B66], [0x5B66, 0x4E60], [0x6559, 0x80B2],
     [0x7279, 0x70B9], [0x4F18, 0x52BF], [0x5185, 0x5BB9], [0x5C55, 0x793A],
     [0x6848, 0x4F8B], [0x603B, 0x7ED3],
     [0x5FD7, 0x613F], [0x670D, 0x52A1], [0x6D3B, 0x52A8],
     [0x5B9E, 0x8DF5], [0x4F53, 0x9A8C], [0x4E2D, 0x5FC3], [0x4E4B, 0x65C5]]"

definition bodyStartWords :: "jsstring list" where
  "bodyStartWords =
    [[0x6211, 0x4EEC], [0x4ED6, 0x4EEC], [0x5979, 0x4EEC], [0x5B83],
     [0x8FD9, 0x4E2A], [0x8FD9, 0x4E9B], [0x90A3, 0x4E9B], [0x90A3, 0x4E48],
     [0x56E0, 0x4E3A], [0x6240, 0x4EE5],
     [0x4F46, 0x662F], [0x7136, 0x800C], [0x867D, 0x7136], [0x5982, 0x679C],
     [0x4E3A, 0x4E86], [0x7531, 0x4E8E], [0x901A, 0x8FC7], [0x6839, 0x636E],
     [0x5BF9, 0x4E8E],
     [0x4ECA, 0x5929], [0x6628, 0x5929], [0x660E, 0x5929], [0x73B0, 0x5728],
     [0x76EE, 0x524D], [0x5DF2, 0x7ECF], [0x6B63, 0x5728], [0x5C06, 0x4F1A]]"

definition specialSubtitlePatterns :: "pattern list" where
  \<comment> \<open>seven patterns \<open>/.*A.*B.*/\<close>, one pair of two-character words each\<close>
  "specialSubtitlePatterns =
     map (\<lambda>(a, b). Pattern False (Cats [Many Dot, Str a, Many Dot, Str b, Many Dot]) False)
       [([0x52A9, 0x529B], [0x6210, 0x957F]),
        ([0x8BFE, 0x5802], [0x6559, 0x5B66]),
        ([0x5B66, 0x4E60], [0x6559, 0x80B2]),
        ([0x7279, 0x70B9], [0x4F18, 0x52BF]),
        ([0x5185, 0x5BB9], [0x5C55, 0x793A]),
        ([0x5FD7, 0x613F], [0x80FD, 0x529B]),
        ([0x7279, 0x6559], [0x4E2D, 0x5FC3])]"

definition subtitleEndings :: "jsstring list" where
  \<comment> \<open>full-width colon, colon, \<open>U+3011\<close>, full-width and ASCII closing parenthesis\<close>
  "subtitleEndings = [[0xFF1A], [0x3A], [0x3011], [0xFF09], [0x29]]"

definition hasSubtitleKeyword :: "jsstring \<Rightarrow> bool" where
  "hasSubtitleKeyword text =
     list_ex (\<lambda>keyword. includes_str text keyword) subtitleKeywords"

definition matchesSpecialPattern :: "jsstring \<Rightarrow> bool" where
  "matchesSpecialPattern text =
     list_ex (\<lambda>pattern. test pattern text) specialSubtitlePatterns"

definition startsWithBodyWord :: "jsstring \<Rightarrow> bool" where
  "startsWithBodyWord text = list_ex (\<lambda>word. startsWith text word) bodyStartWords"

definition endsWithSubtitleEnding :: "jsstring \<Rightarrow> bool" where
  "endsWithSubtitleEnding text =
     list_ex (\<lambda>ending. endsWith (trim text) ending) subtitleEndings"

definition endsWithColon :: "jsstring \<Rightarrow> bool" where
  \<comment> \<open>\<open>/.*[:]$/\<close> with the full-width and the ASCII colon in the class\<close>
  "endsWithColon text =
     test (Pattern False (Cats [Many Dot, Chars (OneOf [0xFF1A, 0x3A])]) True) (trim text)"

definition endsWithBodyPunctuation :: "jsstring \<Rightarrow> bool" where
  \<comment> \<open>\<open>/[,.;!?]$/\<close>, the five marks in their full-width (CJK) forms\<close>
  "endsWithBodyPunctuation text =
     test (Pattern False (Chars (OneOf [0xFF0C, 0x3002, 0xFF1B, 0xFF01, 0xFF1F])) True)
       (trim text)"

definition hasChapterIndicator :: "jsstring \<Rightarrow> bool" where
  \<comment> \<open>\<open>/^(di?[1-10 in CJK, zhang]+|[\d]+[\<comma>.])/i\<close>; the \<open>i\<close> flag changes nothing,
      as no character of the pattern is the upper case of another\<close>
  "hasChapterIndicator text =
     test (Pattern True
        (Or (Cats [Maybe (Lit 0x7B2C), Some1 (Chars (OneOf (oneToNine @ [0x5341, 0x7AE0])))])
            (Cats [Some1 (Chars digit), Chars (OneOf [0x3001, 0x2E])])) False)
       (trim text)"

definition isParallelStructure :: "jsstring \<Rightarrow> bool" where
  \<comment> \<open>\<open>/.*[,\<comma>,].*/\<close> (full-width comma, ideographic comma, ASCII comma) and one of
      five domain words\<close>
  "isParallelStructure text =
     (test (Pattern False (Cats [Many Dot, Chars (OneOf [0xFF0C, 0x3001, 0x2C]), Many Dot]) False)
        text
      \<and> (includes_str text [0x5FD7, 0x613F] \<or> includes_str text [0x670D, 0x52A1]
           \<or> includes_str text [0x6D3B, 0x52A8] \<or> includes_str text [0x4E2D, 0x5FC3]
           \<or> includes_str text [0x4E4B, 0x65C5]))"

definition hasPreviousSubtitle :: "Section list \<Rightarrow> bool" where
  "hasPreviousSubtitle sections =
     (length sections > 0 \<and> stype (sections ! (length sections - 1)) = TypeSubtitle)"

definition isListItemStyle :: "jsstring \<Rightarrow> Section list \<Rightarrow> bool" where
  "isListItemStyle text sections =
     (hasPreviousSubtitle sections \<and> \<not> startsWithBodyWord text \<and> length text \<le> 20)"

definition isSubtitle :: "jsstring \<Rightarrow> Section list \<Rightarrow> bool" where
  "isSubtitle text sections =
     (shortText text
      \<and> (hasSubtitleKeyword text
           \<or> matchesSpecialPattern text
           \<or> endsWithSubtitleEnding text
           \<or> endsWithColon text
           \<or> hasChapterIndicator text
           \<or> isListItemStyle text sections
           \<or> isParallelStructure text)
      \<and> \<not> endsWithBodyPunctuation text)"

subsection \<open>\<open>_analyzeContentStructure\<close>\<close>

text \<open>
  The loop \<open>for (let i = 1; i < paragraphs.length; i++)\<close> runs over the paragraphs
  after the first (the title), carrying the array \<open>sections\<close> and the counter
  \<open>position\<close> (here \<open>pos\<close>). \<open>classify\<close> is one pass of its body after the blank test.
\<close>

definition classify :: "jsstring \<Rightarrow> Section list \<Rightarrow> nat \<Rightarrow> Section" where
  "classify paragraph sections pos =
     (let imageInfo = isImagePlaceholder paragraph in
      if isImage imageInfo then
        \<lparr>stype = TypeImage, content = js_or (caption imageInfo) [], position = pos\<rparr>
      else if isSubtitle paragraph sections then
        \<lparr>stype = TypeSubtitle, content = paragraph, position = pos\<rparr>
      else
        \<lparr>stype = TypeText, content = paragraph, position = pos\<rparr>)"

fun analyzeLoop :: "jsstring list \<Rightarrow> Section list \<Rightarrow> nat \<Rightarrow> Section list" where
  "analyzeLoop [] sections pos = sections"
| "analyzeLoop (p # rest) sections pos =
     (let paragraph = trim p in
      if paragraph = [] then analyzeLoop rest sections pos
      else analyzeLoop rest (sections @ [classify paragraph sections pos]) (pos + 1))"

definition analyzeContentStructure :: "jsstring list \<Rightarrow> Section list" where
  "analyzeContentStructure paragraphs = analyzeLoop (drop 1 paragraphs) [] 1"


section \<open>The template repository (class \<open>TemplateRepository\<close>)\<close>

datatype templateType = SingleImage | DoubleImageWithCaption | DoubleImageNoCaption
  \<comment> \<open>the strings \<open>'single-image'\<close>, \<open>'double-image-with-caption'\<close>,
      \<open>'double-image-no-caption'\<close>, the only ones that the selectors of the repository
      return; the engine treats every other value as it does \<open>'single-image'\<close>\<close>

datatype selector = Function "nat \<Rightarrow> templateType" | NotAFunction | Absent
  \<comment> \<open>the value of a \<open>selectTemplate\<close> property: a function of the image count, a truthy
      value that is no function, or a falsy value (\<open>undefined\<close> when the property is missing)\<close>

record template =
  tid :: jsstring
  tname :: jsstring
  description :: jsstring
  selectTemplate :: selector

text \<open>
  \<open>tid\<close> and \<open>tname\<close> are the properties \<open>id\<close> and \<open>name\<close>. A missing string property
  reads as \<open>undefined\<close>, which the code only ever tests for truth, as it does the empty
  string: both are the empty list here.
\<close>

datatype error =
    TemplateEmpty
  | MissingFields
  | AlreadyExists jsstring
  | SelectTemplateNotFunction
  | TemplateIdEmpty
  | NotFound jsstring
  | LastTemplate
  | MissingIdOrName
  | TypeError
  | ApplyFailed error

subsection \<open>The object \<open>this.templates\<close>\<close>

text \<open>
  \<open>this.templates\<close> is an ordinary object created by an object literal. Its own
  properties are kept in insertion order; reading \<open>this.templates[k]\<close> looks for an own
  property first and then along the prototype chain, that is in \<open>Object.prototype\<close>,
  whose members are functions (and, for \<open>__proto__\<close>, the prototype object itself):
  truthy values with no \<open>selectTemplate\<close> and no \<open>description\<close>.
\<close>

type_synonym templates = "(jsstring \<times> template) list"

datatype jsvalue = Obj template | Proto | Undefined | Null

definition objectPrototype :: "jsstring list" where
  "objectPrototype =
     [js ''constructor'', js ''__defineGetter__'', js ''__defineSetter__'',
      js ''hasOwnProperty'', js ''__lookupGetter__'', js ''__lookupSetter__'',
      js ''isPrototypeOf'', js ''propertyIsEnumerable'', js ''toString'', js ''valueOf'',
      js ''__proto__'', js ''toLocaleString'']"

definition getProperty :: "templates \<Rightarrow> jsstring \<Rightarrow> jsvalue" where
  \<comment> \<open>\<open>this.templates[k]\<close>\<close>
  "getProperty obj k =
     (case map_of obj k of
        Some t \<Rightarrow> Obj t
      | None \<Rightarrow> if k \<in> set objectPrototype then Proto else Undefined)"

fun truthy :: "jsvalue \<Rightarrow> bool" where
  "truthy (Obj t) = True"
| "truthy Proto = True"
| "truthy Undefined = False"
| "truthy Null = False"

fun setProperty :: "templates \<Rightarrow> jsstring \<Rightarrow> template \<Rightarrow> templates" where
  \<comment> \<open>\<open>this.templates[k] = t\<close>: an own property keeps its place, a new one goes last\<close>
  "setProperty [] k t = [(k, t)]"
| "setProperty ((k', t') # obj) k t =
     (if k' = k then (k, t) # obj else (k', t') # setProperty obj k t)"

definition deleteProperty :: "templates \<Rightarrow> jsstring \<Rightarrow> templates" where
  \<comment> \<open>\<open>delete this.templates[k]\<close>: removes an own property, and does nothing otherwise\<close>
  "deleteProperty obj k = filter (\<lambda>(k', t'). k' \<noteq> k) obj"

definition indexValue :: "jsstring \<Rightarrow> nat" where
  "indexValue k = foldl (\<lambda>n c. 10 * n + (c - 0x30)) 0 k"

definition isArrayIndex :: "jsstring \<Rightarrow> bool" where
  \<comment> \<open>the canonical decimal numeral of an integer below \<open>2^32 - 1\<close>\<close>
  "isArrayIndex k =
     (k \<noteq> [] \<and> list_all (\<lambda>c. in_ranges c digit) k \<and> (k = [0x30] \<or> hd k \<noteq> 0x30)
      \<and> indexValue k < 2 ^ 32 - 1)"

definition Object_keys :: "templates \<Rightarrow> jsstring list" where
  \<comment> \<open>\<open>Object.keys\<close>: the array indices in ascending order, then the other keys in
      insertion order\<close>
  "Object_keys obj =
     sort_key indexValue (filter isArrayIndex (map fst obj))
     @ filter (\<lambda>k. \<not> isArrayIndex k) (map fst obj)"

subsection \<open>The repository and its methods\<close>

record repository =
  templates :: templates
  defaultTemplate :: "jsstring option"

text \<open>\<open>defaultTemplate\<close> is a string or \<open>null\<close> (\<open>None\<close>); as a property key \<open>null\<close> is
  the string \<open>'null'\<close>.\<close>

definition propertyKey :: "jsstring option \<Rightarrow> jsstring" where
  "propertyKey k = (case k of None \<Rightarrow> js ''null'' | Some s \<Rightarrow> s)"

definition selectBusinessTemplate :: "nat \<Rightarrow> templateType" where
  "selectBusinessTemplate imageCount =
     (if imageCount > 0 \<and> imageCount \<le> 2 then DoubleImageWithCaption
      else if imageCount \<ge> 3 then DoubleImageNoCaption
      else SingleImage)"

definition selectSimpleTemplate :: "nat \<Rightarrow> templateType" where
  "selectSimpleTemplate imageCount = SingleImage"

definition selectEducationTemplate :: "nat \<Rightarrow> templateType" where
  "selectEducationTemplate imageCount =
     (if imageCount > 0 \<and> imageCount \<le> 1 then SingleImage
      else if imageCount \<ge> 2 then DoubleImageWithCaption
      else SingleImage)"

definition selectCreativeTemplate :: "nat \<Rightarrow> templateType" where
  "selectCreativeTemplate imageCount =
     (if imageCount > 0 \<and> imageCount \<le> 2 then DoubleImageWithCaption
      else if imageCount \<ge> 3 then DoubleImageNoCaption
      else SingleImage)"

definition constructor :: repository where
  \<comment> \<open>the repository as the constructor leaves it; names and descriptions are the
      Chinese strings of the source\<close>
  "constructor =
     \<lparr>templates =
        [(js ''business'',
          \<lparr>tid = js ''business'', tname = [0x5546, 0x52A1, 0x98CE, 0x683C],
           description = [0x9002, 0x7528, 0x4E8E, 0x5546, 0x52A1, 0x7C7B, 0x6587, 0x7AE0,
             0x7684, 0x6A21, 0x677F, 0x98CE, 0x683C],
           selectTemplate = Function selectBusinessTemplate\<rparr>),
         (js ''simple'',
          \<lparr>tid = js ''simple'', tname = [0x7B80, 0x7EA6, 0x98CE, 0x683C],
           description = [0x7B80, 0x6D01, 0x660E, 0x4E86, 0x7684, 0x6587, 0x7AE0, 0x6A21,
             0x677F, 0x98CE, 0x683C],
           selectTemplate = Function selectSimpleTemplate\<rparr>),
         (js ''education'',
          \<lparr>tid = js ''education'', tname = [0x6559, 0x80B2, 0x98CE, 0x683C],
           description = [0x9002, 0x7528, 0x4E8E, 0x6559, 0x80B2, 0x7C7B, 0x6587, 0x7AE0,
             0x7684, 0x6A21, 0x677F, 0x98CE, 0x683C],
           selectTemplate = Function selectEducationTemplate\<rparr>),
         (js ''creative'',
          \<lparr>tid = js ''creative'', tname = [0x521B, 0x610F, 0x98CE, 0x683C],
           description = [0x5BCC, 0x6709, 0x521B, 0x610F, 0x8BBE, 0x8BA1, 0x611F, 0x7684,
             0x6587, 0x7AE0, 0x6A21, 0x677F, 0x98CE, 0x683C],
           selectTemplate = Function selectCreativeTemplate\<rparr>)],
      defaultTemplate = Some (js ''business'')\<rparr>"

definition getTemplateById :: "repository \<Rightarrow> jsstring \<Rightarrow> jsvalue" where
  \<comment> \<open>\<open>this.templates[templateId] || null\<close>\<close>
  "getTemplateById repo templateId =
     (if truthy (getProperty (templates repo) templateId)
      then getProperty (templates repo) templateId else Null)"

definition getDefaultTemplate :: "repository \<Rightarrow> jsvalue" where
  "getDefaultTemplate repo =
     getProperty (templates repo) (propertyKey (defaultTemplate repo))"

definition setDefaultTemplate :: "repository \<Rightarrow> jsstring \<Rightarrow> error + repository" where
  \<comment> \<open>the method has no \<open>throw\<close>: it returns in every case\<close>
  "setDefaultTemplate repo templateId =
     (if truthy (getProperty (templates repo) templateId)
      then Inr (repo\<lparr>defaultTemplate := Some templateId\<rparr>)
      else Inr repo)"

fun falsy_selector :: "selector \<Rightarrow> bool" where
  \<comment> \<open>\<open>!template.selectTemplate\<close>\<close>
  "falsy_selector Absent = True"
| "falsy_selector (Function f) = False"
| "falsy_selector NotAFunction = False"

fun isFunction :: "selector \<Rightarrow> bool" where
  \<comment> \<open>\<open>typeof template.selectTemplate === 'function'\<close>\<close>
  "isFunction (Function f) = True"
| "isFunction NotAFunction = False"
| "isFunction Absent = False"

definition addTemplate :: "repository \<Rightarrow> template option \<Rightarrow> error + repository" where
  \<comment> \<open>the argument is \<open>None\<close> for a falsy \<open>template\<close>\<close>
  "addTemplate repo template =
     (case template of
        None \<Rightarrow> Inl TemplateEmpty
      | Some t \<Rightarrow>
          if tid t = [] \<or> tname t = [] \<or> falsy_selector (selectTemplate t)
            then Inl MissingFields
          else if truthy (getProperty (templates repo) (tid t)) then Inl (AlreadyExists (tid t))
          else if \<not> isFunction (selectTemplate t) then Inl SelectTemplateNotFunction
          else Inr (repo\<lparr>templates := setProperty (templates repo) (tid t) t\<rparr>))"

definition removeTemplate :: "repository \<Rightarrow> jsstring \<Rightarrow> error + repository" where
  "removeTemplate repo templateId =
     (if templateId = [] then Inl TemplateIdEmpty
      else if \<not> truthy (getProperty (templates repo) templateId) then Inl (NotFound templateId)
      else if length (Object_keys (templates repo)) \<le> 1 then Inl LastTemplate
      else
        let remaining = deleteProperty (templates repo) templateId in
        if defaultTemplate repo = Some templateId then
          let templateIds = Object_keys remaining in
          Inr \<lparr>templates = remaining,
               defaultTemplate = (if length templateIds > 0 then Some (templateIds ! 0) else None)\<rparr>
        else Inr \<lparr>templates = remaining, defaultTemplate = defaultTemplate repo\<rparr>)"

record imageRules =
  minImagesForDoubleNoCaption :: "int option"
  minImagesForDoubleWithCaption :: "int option"

text \<open>A threshold is an integer, or \<open>None\<close> when the property is missing: \<open>undefined\<close>
  compares false with every number.\<close>

definition atLeast_js :: "nat \<Rightarrow> int option \<Rightarrow> bool" where
  \<comment> \<open>\<open>imageCount >= threshold\<close>\<close>
  "atLeast_js imageCount threshold =
     (case threshold of None \<Rightarrow> False | Some m \<Rightarrow> int imageCount \<ge> m)"

definition createCustomSelectTemplate :: "imageRules \<Rightarrow> nat \<Rightarrow> templateType" where
  "createCustomSelectTemplate rules imageCount =
     (if atLeast_js imageCount (minImagesForDoubleNoCaption rules) then DoubleImageNoCaption
      else if atLeast_js imageCount (minImagesForDoubleWithCaption rules)
        then DoubleImageWithCaption
      else SingleImage)"

record templateConfig =
  config_id :: jsstring
  config_name :: jsstring
  config_description :: jsstring
  baseTemplate :: jsstring
  config_imageRules :: "imageRules option"

fun selectTemplateOf :: "jsvalue \<Rightarrow> error + selector" where
  \<comment> \<open>\<open>base.selectTemplate\<close>: a \<open>TypeError\<close> on \<open>undefined\<close> and \<open>null\<close>\<close>
  "selectTemplateOf (Obj t) = Inr (selectTemplate t)"
| "selectTemplateOf Proto = Inr Absent"
| "selectTemplateOf Undefined = Inl TypeError"
| "selectTemplateOf Null = Inl TypeError"

fun descriptionOf :: "jsvalue \<Rightarrow> error + jsstring" where
  \<comment> \<open>\<open>base.description\<close>\<close>
  "descriptionOf (Obj t) = Inr (description t)"
| "descriptionOf Proto = Inr []"
| "descriptionOf Undefined = Inl TypeError"
| "descriptionOf Null = Inl TypeError"

definition createCustomTemplate ::
  "repository \<Rightarrow> templateConfig \<Rightarrow> error + (repository \<times> template)" where
  "createCustomTemplate repo config =
     (if config_id config = [] \<or> config_name config = [] then Inl MissingIdOrName
      else if truthy (getProperty (templates repo) (config_id config))
        then Inl (AlreadyExists (config_id config))
      else
        let base =
          (if baseTemplate config \<noteq> [] \<and> truthy (getProperty (templates repo) (baseTemplate config))
           then getProperty (templates repo) (baseTemplate config)
           else getDefaultTemplate repo) in
        case (case config_imageRules config of
                Some rules \<Rightarrow> Inr (Function (createCustomSelectTemplate rules))
              | None \<Rightarrow> selectTemplateOf base) of
          Inl e \<Rightarrow> Inl e
        | Inr select \<Rightarrow>
            (case (if config_description config \<noteq> [] then Inr (config_description config)
                   else descriptionOf base) of
               Inl e \<Rightarrow> Inl e
             | Inr descr \<Rightarrow>
                 let newTemplate =
                   \<lparr>tid = config_id config, tname = config_name config,
                    description = descr, selectTemplate = select\<rparr> in
                 (case addTemplate repo (Some newTemplate) of
                    Inl e \<Rightarrow> Inl e
                  | Inr repo' \<Rightarrow> Inr (repo', newTemplate))))"


section \<open>The template engine (class \<open>TemplateEngine\<close>)\<close>

text \<open>
  The engine builds its result by appending template literals to a string \<open>html\<close>.
  Each literal is fixed markup around the values interpolated into it, so the model
  keeps, for each literal appended, which one it is and the interpolated values:
  the result is the list of these blocks in the order they are appended.
\<close>

datatype markup =
    HeaderImageBlock
  | ContainerOpen
  | CreativeContainerOpen
  | TitleBlock jsstring
  | CreativeTitleBlock jsstring
  | Divider
  | TextBlock jsstring
  | CreativeTextBlock jsstring
  | SubtitleBlock jsstring
  | CreativeSubtitleBlock jsstring
  | ImageWithCaptionBlock jsstring jsstring jsstring jsstring
  | CreativeImageWithCaptionBlock jsstring jsstring jsstring jsstring
  | DoubleImageNoCaptionBlock
  | CreativeDoubleImageNoCaptionBlock
  | SingleImageBlock
  | CreativeSingleImageBlock
  | ContainerClose
  | FooterBlock

text \<open>The four values of an image block with captions are \<open>imageSrc1\<close>, \<open>imageSrc2\<close>,
  \<open>displayCaption1\<close> and \<open>displayCaption2\<close>, in this order.\<close>

record parsedContent =
  title :: jsstring
  sections :: "Section list"

definition imageSources :: "jsstring list" where
  "imageSources =
     [js ''https://bcn.135editor.com/files/images/editor_styles/ff9cb06459e31801669bcff7c5540f81.png'',
      js ''https://bcn.135editor.com/files/images/editor_styles/152761406d63a8a84e2a9a39760e8350.png'']"

definition defaultCaption :: "jsstring \<Rightarrow> jsstring" where
  \<comment> \<open>the template literal of the default caption: the number, a space, \<open>tu zhu\<close>\<close>
  "defaultCaption captionNumber = captionNumber @ [0x20, 0x56FE, 0x6CE8]"

text \<open>
  \<open>startIndex\<close> is a natural number: the engine passes 1, 3, 5, ..., so that
  \<open>startIndex - 1\<close> is never negative. Both indices into \<open>imageSources\<close> are
  remainders modulo its length, hence in range.
\<close>

definition getImageWithCaptionBlock :: "nat \<Rightarrow> jsstring \<Rightarrow> jsstring \<Rightarrow> markup" where
  "getImageWithCaptionBlock startIndex caption1 caption2 =
     (let imageSrc1 = imageSources ! ((startIndex - 1) mod length imageSources);
          imageSrc2 = imageSources ! (startIndex mod length imageSources);
          captionNumber1 = fromCharCode (0x2460 + (startIndex - 1));
          captionNumber2 = fromCharCode (0x2460 + startIndex mod length imageSources);
          displayCaption1 = js_or caption1 (defaultCaption captionNumber1);
          displayCaption2 = js_or caption2 (defaultCaption captionNumber2)
      in ImageWithCaptionBlock imageSrc1 imageSrc2 displayCaption1 displayCaption2)"

definition getCreativeImageWithCaptionBlock :: "nat \<Rightarrow> jsstring \<Rightarrow> jsstring \<Rightarrow> markup" where
  "getCreativeImageWithCaptionBlock startIndex caption1 caption2 =
     (let imageSrc1 = imageSources ! ((startIndex - 1) mod length imageSources);
          imageSrc2 = imageSources ! (startIndex mod length imageSources);
          captionNumber1 = fromCharCode (0x2460 + (startIndex - 1));
          captionNumber2 = fromCharCode (0x2460 + startIndex mod length imageSources);
          displayCaption1 = js_or caption1 (defaultCaption captionNumber1);
          displayCaption2 = js_or caption2 (defaultCaption captionNumber2)
      in CreativeImageWithCaptionBlock imageSrc1 imageSrc2 displayCaption1 displayCaption2)"

record renderState =
  html :: "markup list"
  imageIndex :: nat
  captionIndex :: nat

definition processSection ::
  "jsstring list \<Rightarrow> templateType \<Rightarrow> jsstring \<Rightarrow> renderState \<Rightarrow> Section \<Rightarrow> renderState" where
  \<comment> \<open>the callback of \<open>sections.forEach\<close>, on the variables it updates\<close>
  "processSection imageCaptions template templateId st sec =
     (case stype sec of
        TypeText \<Rightarrow>
          if templateId = js ''creative''
          then st\<lparr>html := html st @ [CreativeTextBlock (content sec)]\<rparr>
          else st\<lparr>html := html st @ [TextBlock (content sec)]\<rparr>
      | TypeSubtitle \<Rightarrow>
          if templateId = js ''creative''
          then st\<lparr>html := html st @ [CreativeSubtitleBlock (content sec)]\<rparr>
          else st\<lparr>html := html st @ [SubtitleBlock (content sec)]\<rparr>
      | TypeImage \<Rightarrow>
          if template = DoubleImageWithCaption then
            let caption1 = (if captionIndex st < length imageCaptions
                            then imageCaptions ! captionIndex st else []);
                captionIndex' = captionIndex st + 1;
                caption2 = (if captionIndex' < length imageCaptions
                            then imageCaptions ! captionIndex' else []);
                captionIndex'' = captionIndex' + 1
            in \<lparr>html = html st @
                   [if templateId = js ''creative''
                    then getCreativeImageWithCaptionBlock (imageIndex st) caption1 caption2
                    else getImageWithCaptionBlock (imageIndex st) caption1 caption2],
                 imageIndex = imageIndex st + 2,
                 captionIndex = captionIndex''\<rparr>
          else if template = DoubleImageNoCaption then
            if templateId = js ''creative''
            then st\<lparr>html := html st @ [CreativeDoubleImageNoCaptionBlock]\<rparr>
            else st\<lparr>html := html st @ [DoubleImageNoCaptionBlock]\<rparr>
          else
            if templateId = js ''creative''
            then st\<lparr>html := html st @ [CreativeSingleImageBlock]\<rparr>
            else st\<lparr>html := html st @ [SingleImageBlock]\<rparr>
      | TypeOther \<Rightarrow> st)"

definition processContentSections ::
  "Section list \<Rightarrow> templateType \<Rightarrow> jsstring \<Rightarrow> markup list" where
  "processContentSections secs template templateId =
     (let imageCaptions = map content (filter (\<lambda>sec. stype sec = TypeImage) secs)
      in html (foldl (processSection imageCaptions template templateId)
                 \<lparr>html = [], imageIndex = 1, captionIndex = 0\<rparr> secs))"

definition getTitleBlock :: "jsstring \<Rightarrow> jsstring \<Rightarrow> markup" where
  "getTitleBlock t templateId =
     (if templateId = js ''creative'' then CreativeTitleBlock t else TitleBlock t)"

definition generateHTML :: "parsedContent \<Rightarrow> templateType \<Rightarrow> jsstring \<Rightarrow> markup list" where
  "generateHTML cont template templateId =
     [HeaderImageBlock]
     @ [if templateId = js ''creative'' then CreativeContainerOpen else ContainerOpen]
     @ (if title cont \<noteq> [] then [getTitleBlock (title cont) templateId] else [])
     @ [Divider]
     @ processContentSections (sections cont) template templateId
     @ [ContainerClose]
     @ [FooterBlock]"

fun callSelectTemplate :: "jsvalue \<Rightarrow> nat \<Rightarrow> error + (templateType \<times> jsstring)" where
  \<comment> \<open>\<open>template.selectTemplate(imageCount)\<close> and \<open>template.id\<close>: a \<open>TypeError\<close> when
      \<open>template\<close> is \<open>null\<close> or \<open>undefined\<close>, and when \<open>selectTemplate\<close> is no function\<close>
  "callSelectTemplate (Obj t) imageCount =
     (case selectTemplate t of
        Function f \<Rightarrow> Inr (f imageCount, tid t)
      | _ \<Rightarrow> Inl TypeError)"
| "callSelectTemplate Proto imageCount = Inl TypeError"
| "callSelectTemplate Undefined imageCount = Inl TypeError"
| "callSelectTemplate Null imageCount = Inl TypeError"

definition applyTemplate ::
  "repository \<Rightarrow> parsedContent \<Rightarrow> jsstring option \<Rightarrow> error + markup list" where
  \<comment> \<open>\<open>templateId\<close> is \<open>None\<close> when omitted; every error is caught and thrown again
      with the prefix of \<open>applyTemplate\<close>\<close>
  "applyTemplate repo cont templateId =
     (let template =
        (if templateId \<noteq> None \<and> templateId \<noteq> Some []
         then getTemplateById repo (the templateId)
         else getDefaultTemplate repo);
        imageCount = length (filter (\<lambda>s. stype s = TypeImage) (sections cont))
      in case callSelectTemplate template imageCount of
           Inl e \<Rightarrow> Inl (ApplyFailed e)
         | Inr (templateType, template_id) \<Rightarrow> Inr (generateHTML cont templateType template_id))"


section \<open>Notions used to state the properties\<close>

text \<open>The blocks of the output that carry captions, and the two captions they show.\<close>

fun isCaptionBlock :: "markup \<Rightarrow> bool" where
  "isCaptionBlock (ImageWithCaptionBlock src1 src2 shown1 shown2) = True"
| "isCaptionBlock (CreativeImageWithCaptionBlock src1 src2 shown1 shown2) = True"
| "isCaptionBlock block = False"

fun displayCaptions :: "markup \<Rightarrow> jsstring list" where
  "displayCaptions (ImageWithCaptionBlock src1 src2 shown1 shown2) = [shown1, shown2]"
| "displayCaptions (CreativeImageWithCaptionBlock src1 src2 shown1 shown2) = [shown1, shown2]"
| "displayCaptions block = []"

definition captionBlock :: "jsstring \<Rightarrow> nat \<Rightarrow> jsstring \<Rightarrow> jsstring \<Rightarrow> markup" where
  \<comment> \<open>the block that \<open>_processContentSections\<close> appends for an image section under
      \<open>'double-image-with-caption'\<close>, by the template id\<close>
  "captionBlock templateId startIndex caption1 caption2 =
     (if templateId = js ''creative''
      then getCreativeImageWithCaptionBlock startIndex caption1 caption2
      else getImageWithCaptionBlock startIndex caption1 caption2)"

definition captionAt :: "jsstring list \<Rightarrow> nat \<Rightarrow> jsstring" where
  \<comment> \<open>the guarded read \<open>i < imageCaptions.length ? imageCaptions[i] : ''\<close>\<close>
  "captionAt imageCaptions i = (if i < length imageCaptions then imageCaptions ! i else [])"

definition isDefaultCaption :: "jsstring \<Rightarrow> bool" where
  \<comment> \<open>a caption made by \<open>defaultCaption\<close>: one code unit, then a space and \<open>tu zhu\<close>\<close>
  "isDefaultCaption shown = (length shown = 4 \<and> drop 1 shown = [0x20, 0x56FE, 0x6CE8])"

text \<open>
  The invariant of the repository: the own properties of \<open>templates\<close> have distinct
  keys (as the properties of an object do), there is at least one, and
  \<open>defaultTemplate\<close> is the key of one of them.
\<close>

definition registryInvariant :: "repository \<Rightarrow> bool" where
  "registryInvariant repo =
     (distinct (map fst (templates repo))
      \<and> length (Object_keys (templates repo)) \<ge> 1
      \<and> (case defaultTemplate repo of
            None \<Rightarrow> False
          | Some d \<Rightarrow> d \<in> set (Object_keys (templates repo))))"


section \<open>Evaluation of the definitions\<close>

lemmas regex_defs = Cats_def Str_def Dot_def AnyUnit_def Lit_def Some1_def Maybe_def OneOf_def
  lineTerminator_def whiteSpace_def digit_def tu_def oneToNine_def

lemmas image_defs = isImagePlaceholder_def hasImageMarker_def imageMarkers_def hasTuWord_def
  isImageOnly_def hasImageCaptionKeyword_def imageCaptionKeywords_def isImageCaptionFormat_def
  matchesImageDescription_def imageDescriptionPatterns_def startsWithTu_def tuCaptionPattern_def
  matchesNumberPattern_def

lemmas subtitle_defs = isSubtitle_def shortText_def hasSubtitleKeyword_def subtitleKeywords_def
  matchesSpecialPattern_def specialSubtitlePatterns_def endsWithSubtitleEnding_def
  subtitleEndings_def endsWithColon_def hasChapterIndicator_def isListItemStyle_def
  hasPreviousSubtitle_def startsWithBodyWord_def bodyStartWords_def isParallelStructure_def
  endsWithBodyPunctuation_def


section \<open>The paragraph classifier\<close>

lemma classify_position: "position (classify paragraph secs pos) = pos"
  by (simp add: classify_def Let_def)

lemma classify_image:
  "isImage (isImagePlaceholder paragraph) \<Longrightarrow>
   classify paragraph secs pos = \<lparr>stype = TypeImage, content = paragraph, position = pos\<rparr>"
  by (simp add: classify_def Let_def isImagePlaceholder_def js_or_def split: if_splits)

text \<open>When no paragraph is blank, one more paragraph is one more section, classified
  against the sections before it.\<close>

lemma analyzeLoop_snoc:
  "trim p \<noteq> [] \<Longrightarrow> \<forall>q\<in>set ps. trim q \<noteq> [] \<Longrightarrow>
   analyzeLoop (ps @ [p]) secs pos =
     analyzeLoop ps secs pos @ [classify (trim p) (analyzeLoop ps secs pos) (pos + length ps)]"
  by (induction ps arbitrary: secs pos) (simp_all add: Let_def)

lemma analyzeLoop_length:
  "\<forall>q\<in>set ps. trim q \<noteq> [] \<Longrightarrow>
   length (analyzeLoop ps secs pos) = length secs + length ps"
  by (induction ps arbitrary: secs pos) (simp_all add: Let_def)

lemma analyzeLoop_positions:
  "\<forall>q\<in>set ps. trim q \<noteq> [] \<Longrightarrow>
   map position (analyzeLoop ps secs pos) = map position secs @ [pos ..< pos + length ps]"
proof (induction ps arbitrary: secs pos)
  case Nil
  show ?case by simp
next
  case (Cons p rest)
  have "[pos ..< pos + length (p # rest)] = pos # [pos + 1 ..< pos + 1 + length rest]"
    by (simp add: upt_rec)
  with Cons show ?case
    by (simp add: Let_def classify_position)
qed

lemma analyzeLoop_take:
  "\<forall>q\<in>set ps. trim q \<noteq> [] \<Longrightarrow> i \<le> length ps \<Longrightarrow>
   take (length secs + i) (analyzeLoop ps secs pos) = analyzeLoop (take i ps) secs pos"
proof (induction ps arbitrary: i rule: rev_induct)
  case Nil
  then show ?case by simp
next
  case (snoc p ps)
  show ?case
  proof (cases "i = Suc (length ps)")
    case True
    then show ?thesis using snoc.prems
      by (simp add: analyzeLoop_length)
  next
    case False
    with snoc.prems have i: "i \<le> length ps" by simp
    from snoc.prems have nb: "\<forall>q\<in>set ps. trim q \<noteq> []" and p: "trim p \<noteq> []"
      by simp_all
    show ?thesis using snoc.IH [OF nb i] i
      by (simp add: analyzeLoop_snoc [OF p nb] analyzeLoop_length [OF nb])
  qed
qed

lemma analyzeLoop_nth:
  assumes nb: "\<forall>q\<in>set ps. trim q \<noteq> []" and i: "i < length ps"
  shows "analyzeLoop ps secs pos ! (length secs + i) =
           classify (trim (ps ! i)) (take (length secs + i) (analyzeLoop ps secs pos)) (pos + i)"
proof -
  have nbt: "\<forall>q\<in>set (take i ps). trim q \<noteq> []"
    using nb by (meson in_set_takeD)
  have pi: "trim (ps ! i) \<noteq> []" using nb i by simp
  have "take (length secs + Suc i) (analyzeLoop ps secs pos) =
          analyzeLoop (take (Suc i) ps) secs pos"
    using analyzeLoop_take [OF nb, of "Suc i" secs pos] i by simp
  also have "\<dots> = analyzeLoop (take i ps) secs pos
      @ [classify (trim (ps ! i)) (analyzeLoop (take i ps) secs pos) (pos + i)]"
    using analyzeLoop_snoc [OF pi nbt, of secs pos] i
    by (simp add: take_Suc_conv_app_nth)
  finally have eq: "take (length secs + Suc i) (analyzeLoop ps secs pos) =
      analyzeLoop (take i ps) secs pos
      @ [classify (trim (ps ! i)) (analyzeLoop (take i ps) secs pos) (pos + i)]" .
  have len: "length (analyzeLoop (take i ps) secs pos) = length secs + i"
    using analyzeLoop_length [OF nbt, of secs pos] i by simp
  have "analyzeLoop ps secs pos ! (length secs + i) =
        take (length secs + Suc i) (analyzeLoop ps secs pos) ! (length secs + i)"
    by simp
  also have "\<dots> = classify (trim (ps ! i)) (analyzeLoop (take i ps) secs pos) (pos + i)"
    unfolding eq using len by (simp add: nth_append)
  finally show ?thesis
    using analyzeLoop_take [OF nb, of i secs pos] i by simp
qed

text \<open>
  Claim C1. \<open>_analyzeContentStructure\<close> skips the first paragraph, the title. When each
  paragraph after the title is non-empty once trimmed, the sections it returns are as
  many as these paragraphs, and their \<open>position\<close> fields are 1, 2, ..., in the order
  of the output.
\<close>

theorem classify_same_length_contiguous_positions:
  assumes "\<forall>p\<in>set ps. trim p \<noteq> []"
  shows "length (analyzeContentStructure (heading # ps)) = length ps
       \<and> map position (analyzeContentStructure (heading # ps)) = [1 ..< Suc (length ps)]"
  using assms
  by (simp add: analyzeContentStructure_def analyzeLoop_length analyzeLoop_positions)

text \<open>An instance: a title and three paragraphs, the second of them an image marker.\<close>

theorem classify_same_length_contiguous_positions_witness:
  "trim (js ''Summary:'') \<noteq> [] \<and> trim (js ''[img] harbour'') \<noteq> []
   \<and> trim (js ''plain words.'') \<noteq> []
   \<and> length (analyzeContentStructure
        [js ''Title'', js ''Summary:'', js ''[img] harbour'', js ''plain words.'']) = 3
   \<and> map position (analyzeContentStructure
        [js ''Title'', js ''Summary:'', js ''[img] harbour'', js ''plain words.'']) = [1, 2, 3]"
proof -
  have nb: "\<forall>p\<in>set [js ''Summary:'', js ''[img] harbour'', js ''plain words.'']. trim p \<noteq> []"
    by (simp add: trim_def whiteSpace_def js_def)
  have u: "[1 ..< Suc 3] = [1, 2, 3::nat]"
    by (simp add: upt_rec)
  show ?thesis
    using nb classify_same_length_contiguous_positions [OF nb, of "js ''Title''"] u
    by simp
qed

text \<open>
  Claim C9. A paragraph for which \<open>_isImagePlaceholder\<close> answers \<open>isImage\<close> becomes
  an image section, whatever \<open>_isSubtitle\<close> says of it: the image test comes first in
  the loop, and the subtitle test sits in its \<open>else\<close> branch. The section keeps the
  paragraph as its caption.
\<close>

theorem image_rules_take_precedence:
  assumes "\<forall>p\<in>set ps. trim p \<noteq> []" and "i < length ps"
    and "isImage (isImagePlaceholder (trim (ps ! i)))"
    and "isSubtitle (trim (ps ! i)) (take i (analyzeContentStructure (heading # ps)))"
  shows "stype (analyzeContentStructure (heading # ps) ! i) = TypeImage
       \<and> content (analyzeContentStructure (heading # ps) ! i) = trim (ps ! i)"
  using analyzeLoop_nth [OF assms(1) assms(2), of "[]" 1] assms(3)
  by (simp add: analyzeContentStructure_def classify_image)

text \<open>
  An instance: the paragraph \<open>[img]\<close> followed by the two characters of the subtitle
  keyword \<open>jie shao\<close> (introduction) has an image marker and passes \<open>_isSubtitle\<close>.
\<close>

lemma marker_keyword_trim:
  "trim (js ''[img]'' @ [0x4ECB, 0x7ECD]) = js ''[img]'' @ [0x4ECB, 0x7ECD]"
  by (simp add: trim_def whiteSpace_def js_def)

lemma marker_keyword_image: "isImage (isImagePlaceholder (js ''[img]'' @ [0x4ECB, 0x7ECD]))"
  by (simp add: image_defs js_def startsWith_def)

lemma marker_keyword_subtitle: "isSubtitle (js ''[img]'' @ [0x4ECB, 0x7ECD]) []"
  by (simp add: subtitle_defs regex_defs js_def startsWith_def endsWith_def trim_def)

theorem image_rules_take_precedence_witness:
  "trim (js ''[img]'' @ [0x4ECB, 0x7ECD]) \<noteq> []
   \<and> (0::nat) < length [js ''[img]'' @ [0x4ECB, 0x7ECD]]
   \<and> isImage (isImagePlaceholder (trim ([js ''[img]'' @ [0x4ECB, 0x7ECD]] ! 0)))
   \<and> isSubtitle (trim ([js ''[img]'' @ [0x4ECB, 0x7ECD]] ! 0))
        (take 0 (analyzeContentStructure [js ''Title'', js ''[img]'' @ [0x4ECB, 0x7ECD]]))
   \<and> stype (analyzeContentStructure [js ''Title'', js ''[img]'' @ [0x4ECB, 0x7ECD]] ! 0)
       = TypeImage
   \<and> content (analyzeContentStructure [js ''Title'', js ''[img]'' @ [0x4ECB, 0x7ECD]] ! 0)
       = js ''[img]'' @ [0x4ECB, 0x7ECD]"
proof -
  have h1: "\<forall>p\<in>set [js ''[img]'' @ [0x4ECB, 0x7ECD]]. trim p \<noteq> []"
    by (simp add: marker_keyword_trim)
  have h2: "(0::nat) < length [js ''[img]'' @ [0x4ECB, 0x7ECD]]"
    by simp
  have h3: "isImage (isImagePlaceholder (trim ([js ''[img]'' @ [0x4ECB, 0x7ECD]] ! 0)))"
    by (simp add: marker_keyword_trim marker_keyword_image)
  have h4: "isSubtitle (trim ([js ''[img]'' @ [0x4ECB, 0x7ECD]] ! 0))
        (take 0 (analyzeContentStructure [js ''Title'', js ''[img]'' @ [0x4ECB, 0x7ECD]]))"
    by (simp add: marker_keyword_trim marker_keyword_subtitle)
  show ?thesis
    using h1 h2 h3 h4 image_rules_take_precedence [OF h1 h2 h3 h4] marker_keyword_trim
    by simp
qed

text \<open>
  The two paragraphs of claim C6: \<open>he xin ti shi\<close> with a full-width colon (five code
  units) and \<open>zhu li cheng zhang\<close> (four code units).
\<close>

lemma example_trim:
  "trim [0x6838, 0x5FC3, 0x63D0, 0x793A, 0xFF1A] = [0x6838, 0x5FC3, 0x63D0, 0x793A, 0xFF1A]"
  "trim [0x52A9, 0x529B, 0x6210, 0x957F] = [0x52A9, 0x529B, 0x6210, 0x957F]"
  by (simp_all add: trim_def whiteSpace_def)

lemma example_first:
  "classify [0x6838, 0x5FC3, 0x63D0, 0x793A, 0xFF1A] [] pos =
     \<lparr>stype = TypeSubtitle, content = [0x6838, 0x5FC3, 0x63D0, 0x793A, 0xFF1A],
      position = pos\<rparr>"
  by (simp add: classify_def image_defs subtitle_defs regex_defs startsWith_def endsWith_def
      js_def trim_def)

lemma example_second:
  "classify [0x52A9, 0x529B, 0x6210, 0x957F]
     [\<lparr>stype = TypeSubtitle, content = [0x6838, 0x5FC3, 0x63D0, 0x793A, 0xFF1A],
       position = q\<rparr>] pos =
     \<lparr>stype = TypeSubtitle, content = [0x52A9, 0x529B, 0x6210, 0x957F], position = pos\<rparr>"
  by (simp add: classify_def image_defs subtitle_defs regex_defs startsWith_def endsWith_def
      js_def trim_def)

lemma example_context:
  "isListItemStyle [0x52A9, 0x529B, 0x6210, 0x957F]
     [\<lparr>stype = TypeSubtitle, content = [0x6838, 0x5FC3, 0x63D0, 0x793A, 0xFF1A],
       position = q\<rparr>]"
  by (simp add: isListItemStyle_def hasPreviousSubtitle_def startsWithBodyWord_def
      bodyStartWords_def startsWith_def)

text \<open>
  The second paragraph contains the subtitle keywords \<open>zhu li\<close> and \<open>cheng zhang\<close>
  and matches the first special pattern. It passes \<open>_isSubtitle\<close> after any sections,
  and it is no image; after no section the context rule does not hold of it.
\<close>

lemma example_second_rules:
  "hasSubtitleKeyword [0x52A9, 0x529B, 0x6210, 0x957F]"
  "matchesSpecialPattern [0x52A9, 0x529B, 0x6210, 0x957F]"
  by (simp_all add: hasSubtitleKeyword_def subtitleKeywords_def matchesSpecialPattern_def
      specialSubtitlePatterns_def startsWith_def regex_defs)

lemma example_second_keywords: "isSubtitle [0x52A9, 0x529B, 0x6210, 0x957F] secs"
  by (simp add: isSubtitle_def shortText_def hasSubtitleKeyword_def subtitleKeywords_def
      endsWithBodyPunctuation_def startsWith_def regex_defs trim_def)

lemma example_second_no_image: "\<not> isImage (isImagePlaceholder [0x52A9, 0x529B, 0x6210, 0x957F])"
  by (simp add: image_defs regex_defs startsWith_def js_def trim_def)

lemma example_second_alone:
  "classify [0x52A9, 0x529B, 0x6210, 0x957F] secs pos =
     \<lparr>stype = TypeSubtitle, content = [0x52A9, 0x529B, 0x6210, 0x957F], position = pos\<rparr>"
  by (simp add: classify_def Let_def example_second_no_image example_second_keywords)

lemma example_second_no_context: "\<not> isListItemStyle [0x52A9, 0x529B, 0x6210, 0x957F] []"
  by (simp add: isListItemStyle_def hasPreviousSubtitle_def)

text \<open>
  Claim C6 as stated fails: the second paragraph is not classified through the context
  rule. It is a subtitle after the first paragraph and equally when it is the only
  paragraph after the title, where no section precedes it and the context rule does
  not hold; what holds of it in both places is the keyword rule.
\<close>

theorem keyword_paragraph_subtitle_without_context:
  "isSubtitle [0x52A9, 0x529B, 0x6210, 0x957F]
     [\<lparr>stype = TypeSubtitle, content = [0x6838, 0x5FC3, 0x63D0, 0x793A, 0xFF1A], position = 1\<rparr>]
   \<and> isSubtitle [0x52A9, 0x529B, 0x6210, 0x957F] []
   \<and> \<not> isListItemStyle [0x52A9, 0x529B, 0x6210, 0x957F] []
   \<and> hasSubtitleKeyword [0x52A9, 0x529B, 0x6210, 0x957F]
   \<and> analyzeContentStructure [js ''Title'', [0x52A9, 0x529B, 0x6210, 0x957F]] =
       [\<lparr>stype = TypeSubtitle, content = [0x52A9, 0x529B, 0x6210, 0x957F], position = 1\<rparr>]"
proof -
  have alone: "analyzeContentStructure [js ''Title'', [0x52A9, 0x529B, 0x6210, 0x957F]] =
       [\<lparr>stype = TypeSubtitle, content = [0x52A9, 0x529B, 0x6210, 0x957F], position = 1\<rparr>]"
    by (simp add: analyzeContentStructure_def Let_def example_trim example_second_alone)
  show ?thesis
    using alone example_second_keywords example_second_no_context example_second_rules(1)
    by simp
qed

text \<open>
  Claim C6, amended. After any title, the two paragraphs \<open>he xin ti shi:\<close> and
  \<open>zhu li cheng zhang\<close> both become subtitles. The three conditions of the context
  rule hold of the second: the section just before it is a subtitle, it starts with no
  body-opening word, and it has at most 20 code units. But the context rule is not
  what makes it a subtitle: it contains subtitle keywords, it passes \<open>_isSubtitle\<close>
  after any sections \<open>secs\<close>, and it is a subtitle also as the only paragraph after
  the title, where the context rule does not hold.
\<close>

theorem context_example_is_subtitle_by_keywords:
  "analyzeContentStructure
     [heading, [0x6838, 0x5FC3, 0x63D0, 0x793A, 0xFF1A], [0x52A9, 0x529B, 0x6210, 0x957F]] =
     [\<lparr>stype = TypeSubtitle, content = [0x6838, 0x5FC3, 0x63D0, 0x793A, 0xFF1A], position = 1\<rparr>,
      \<lparr>stype = TypeSubtitle, content = [0x52A9, 0x529B, 0x6210, 0x957F], position = 2\<rparr>]
   \<and> hasPreviousSubtitle
        (take 1 (analyzeContentStructure
           [heading, [0x6838, 0x5FC3, 0x63D0, 0x793A, 0xFF1A], [0x52A9, 0x529B, 0x6210, 0x957F]]))
   \<and> \<not> startsWithBodyWord [0x52A9, 0x529B, 0x6210, 0x957F]
   \<and> length [0x52A9, 0x529B, 0x6210, 0x957F :: nat] \<le> 20
   \<and> isListItemStyle [0x52A9, 0x529B, 0x6210, 0x957F]
        (take 1 (analyzeContentStructure
           [heading, [0x6838, 0x5FC3, 0x63D0, 0x793A, 0xFF1A], [0x52A9, 0x529B, 0x6210, 0x957F]]))
   \<and> hasSubtitleKeyword [0x52A9, 0x529B, 0x6210, 0x957F]
   \<and> isSubtitle [0x52A9, 0x529B, 0x6210, 0x957F] secs
   \<and> analyzeContentStructure [heading, [0x52A9, 0x529B, 0x6210, 0x957F]] =
       [\<lparr>stype = TypeSubtitle, content = [0x52A9, 0x529B, 0x6210, 0x957F], position = 1\<rparr>]
   \<and> \<not> isListItemStyle [0x52A9, 0x529B, 0x6210, 0x957F] []"
proof -
  have out: "analyzeContentStructure
     [heading, [0x6838, 0x5FC3, 0x63D0, 0x793A, 0xFF1A], [0x52A9, 0x529B, 0x6210, 0x957F]] =
     [\<lparr>stype = TypeSubtitle, content = [0x6838, 0x5FC3, 0x63D0, 0x793A, 0xFF1A], position = 1\<rparr>,
      \<lparr>stype = TypeSubtitle, content = [0x52A9, 0x529B, 0x6210, 0x957F], position = 2\<rparr>]"
    by (simp add: analyzeContentStructure_def Let_def example_trim example_first example_second)
  have ctx: "isListItemStyle [0x52A9, 0x529B, 0x6210, 0x957F]
     [\<lparr>stype = TypeSubtitle, content = [0x6838, 0x5FC3, 0x63D0, 0x793A, 0xFF1A], position = 1\<rparr>]"
    by (rule example_context)
  have alone: "analyzeContentStructure [heading, [0x52A9, 0x529B, 0x6210, 0x957F]] =
       [\<lparr>stype = TypeSubtitle, content = [0x52A9, 0x529B, 0x6210, 0x957F], position = 1\<rparr>]"
    by (simp add: analyzeContentStructure_def Let_def example_trim example_second_alone)
  show ?thesis
    unfolding out alone
    using ctx example_second_keywords [of secs] example_second_no_context
      example_second_rules(1)
    by (simp add: isListItemStyle_def)
qed

theorem context_example_is_subtitle_by_keywords_witness:
  "map stype (analyzeContentStructure
     [js ''Title'', [0x6838, 0x5FC3, 0x63D0, 0x793A, 0xFF1A], [0x52A9, 0x529B, 0x6210, 0x957F]])
     = [TypeSubtitle, TypeSubtitle]
   \<and> isSubtitle [0x52A9, 0x529B, 0x6210, 0x957F] []
   \<and> map stype (analyzeContentStructure [js ''Title'', [0x52A9, 0x529B, 0x6210, 0x957F]])
     = [TypeSubtitle]"
  using context_example_is_subtitle_by_keywords [of "js ''Title''" "[]"] by simp

text \<open>
  Where the context rule does decide: the two characters \<open>ni hao\<close> have no keyword,
  match no pattern and end in no colon or bracket. After the subtitle
  \<open>he xin ti shi:\<close> the paragraph is a subtitle, by the context rule alone; as the
  only paragraph after the title it is text.
\<close>

lemma short_line_trim: "trim [0x4F60, 0x597D] = [0x4F60, 0x597D]"
  by (simp add: trim_def whiteSpace_def)

lemma short_line_after_subtitle:
  "classify [0x4F60, 0x597D]
     [\<lparr>stype = TypeSubtitle, content = [0x6838, 0x5FC3, 0x63D0, 0x793A, 0xFF1A],
       position = q\<rparr>] pos =
     \<lparr>stype = TypeSubtitle, content = [0x4F60, 0x597D], position = pos\<rparr>"
  by (simp add: classify_def image_defs subtitle_defs regex_defs startsWith_def endsWith_def
      js_def trim_def)

lemma short_line_alone:
  "classify [0x4F60, 0x597D] [] pos =
     \<lparr>stype = TypeText, content = [0x4F60, 0x597D], position = pos\<rparr>"
  by (simp add: classify_def image_defs subtitle_defs regex_defs startsWith_def endsWith_def
      js_def trim_def)

lemma context_rule_decides_short_line:
  "map stype (analyzeContentStructure
      [heading, [0x6838, 0x5FC3, 0x63D0, 0x793A, 0xFF1A], [0x4F60, 0x597D]])
     = [TypeSubtitle, TypeSubtitle]
   \<and> map stype (analyzeContentStructure [heading, [0x4F60, 0x597D]]) = [TypeText]
   \<and> \<not> hasSubtitleKeyword [0x4F60, 0x597D]"
  by (simp add: analyzeContentStructure_def Let_def example_trim short_line_trim example_first
      short_line_after_subtitle short_line_alone hasSubtitleKeyword_def subtitleKeywords_def
      startsWith_def)


section \<open>The caption blocks of the renderer\<close>

lemma processSection_captionBlocks:
  "filter isCaptionBlock (html (processSection caps DoubleImageWithCaption templateId st sec)) =
     filter isCaptionBlock (html st)
     @ (if stype sec = TypeImage
        then [captionBlock templateId (imageIndex st)
                (captionAt caps (captionIndex st)) (captionAt caps (captionIndex st + 1))]
        else [])"
  by (cases "stype sec")
     (simp_all add: processSection_def captionBlock_def captionAt_def Let_def
        getImageWithCaptionBlock_def getCreativeImageWithCaptionBlock_def)

lemma processSection_indices:
  "imageIndex (processSection caps DoubleImageWithCaption templateId st sec) =
     (if stype sec = TypeImage then imageIndex st + 2 else imageIndex st)"
  "captionIndex (processSection caps DoubleImageWithCaption templateId st sec) =
     (if stype sec = TypeImage then captionIndex st + 2 else captionIndex st)"
  by (cases "stype sec"; simp add: processSection_def Let_def)+

lemma foldl_processSection_captionBlocks:
  "filter isCaptionBlock
     (html (foldl (processSection caps DoubleImageWithCaption templateId) st secs)) =
   filter isCaptionBlock (html st)
   @ map (\<lambda>k. captionBlock templateId (imageIndex st + 2 * k)
                 (captionAt caps (captionIndex st + 2 * k))
                 (captionAt caps (captionIndex st + 2 * k + 1)))
       [0 ..< length (filter (\<lambda>sec. stype sec = TypeImage) secs)]"
proof (induction secs arbitrary: st)
  case Nil
  show ?case by simp
next
  case (Cons sec rest)
  show ?case
  proof (cases "stype sec = TypeImage")
    case True
    then show ?thesis
      by (simp add: Cons.IH processSection_captionBlocks processSection_indices
            map_upt_Suc del: upt_Suc)
  next
    case False
    then show ?thesis
      by (simp add: Cons.IH processSection_captionBlocks processSection_indices)
  qed
qed

text \<open>
  Under \<open>'double-image-with-caption'\<close> the image sections give one caption block
  each; the block of the image section number \<open>k + 1\<close> has the image index \<open>2k + 1\<close>
  and is given the captions number \<open>2k\<close> and \<open>2k + 1\<close> (from 0) of the image sections,
  or the empty string past the last one.
\<close>

lemma processContentSections_captionBlocks:
  "filter isCaptionBlock (processContentSections secs DoubleImageWithCaption templateId) =
     map (\<lambda>k. captionBlock templateId (2 * k + 1)
                 (captionAt (map content (filter (\<lambda>sec. stype sec = TypeImage) secs)) (2 * k))
                 (captionAt (map content (filter (\<lambda>sec. stype sec = TypeImage) secs))
                    (2 * k + 1)))
       [0 ..< length (filter (\<lambda>sec. stype sec = TypeImage) secs)]"
  by (simp add: processContentSections_def foldl_processSection_captionBlocks)

lemma length_imageSources: "length imageSources = 2"
  by (simp add: imageSources_def)

lemma getImageWithCaptionBlock_odd:
  "getImageWithCaptionBlock (Suc (2 * k)) c1 c2 =
     ImageWithCaptionBlock (imageSources ! 0) (imageSources ! 1)
       (js_or c1 (defaultCaption (fromCharCode (0x2460 + 2 * k))))
       (js_or c2 (defaultCaption (fromCharCode 0x2461)))"
  by (simp add: getImageWithCaptionBlock_def length_imageSources Let_def)

lemma getCreativeImageWithCaptionBlock_odd:
  "getCreativeImageWithCaptionBlock (Suc (2 * k)) c1 c2 =
     CreativeImageWithCaptionBlock (imageSources ! 0) (imageSources ! 1)
       (js_or c1 (defaultCaption (fromCharCode (0x2460 + 2 * k))))
       (js_or c2 (defaultCaption (fromCharCode 0x2461)))"
  by (simp add: getCreativeImageWithCaptionBlock_def length_imageSources Let_def)

text \<open>
  The captions shown by the block of the image section number \<open>k + 1\<close>: the default
  caption of the first slot is numbered from the image index, \<open>0x2460 + 2k\<close>; that
  of the second slot has the number \<open>0x2461\<close> in every block.
\<close>

lemma displayCaptions_captionBlock_odd:
  "displayCaptions (captionBlock templateId (Suc (2 * k)) c1 c2) =
     [js_or c1 (defaultCaption (fromCharCode (0x2460 + 2 * k))),
      js_or c2 (defaultCaption (fromCharCode 0x2461))]"
  by (simp add: captionBlock_def getImageWithCaptionBlock_odd getCreativeImageWithCaptionBlock_odd)

text \<open>
  Claim C2. When the image sections of a document have the captions \<open>c1\<close>, \<open>c2\<close>,
  \<open>c3\<close>, \<open>c4\<close>, in this order and with any text and subtitle sections between them,
  the caption blocks rendered under \<open>'double-image-with-caption'\<close> are, in order: one
  built from \<open>(c1, c2)\<close>, one built from \<open>(c3, c4)\<close>, and two more built from empty
  captions, for the third and fourth image section. Each caption enters one slot only.
\<close>

theorem caption_pairs_of_four_images:
  assumes "map content (filter (\<lambda>sec. stype sec = TypeImage) secs) = [c1, c2, c3, c4]"
  shows "filter isCaptionBlock (processContentSections secs DoubleImageWithCaption templateId) =
           [captionBlock templateId 1 c1 c2, captionBlock templateId 3 c3 c4,
            captionBlock templateId 5 [] [], captionBlock templateId 7 [] []]"
proof -
  have n: "length (filter (\<lambda>sec. stype sec = TypeImage) secs) = 4"
    using arg_cong [OF assms, of length] by simp
  have u: "[0 ..< 4] = [0, 1, 2, 3::nat]"
    by (simp add: upt_rec)
  show ?thesis
    unfolding processContentSections_captionBlocks n u assms
    by (simp add: captionAt_def)
qed

text \<open>An instance: four image sections with a text and a subtitle section among them.\<close>

theorem caption_pairs_of_four_images_witness:
  "map content (filter (\<lambda>sec. stype sec = TypeImage)
     [\<lparr>stype = TypeImage, content = js ''c1'', position = 1\<rparr>,
      \<lparr>stype = TypeText, content = js ''words'', position = 2\<rparr>,
      \<lparr>stype = TypeImage, content = js ''c2'', position = 3\<rparr>,
      \<lparr>stype = TypeSubtitle, content = js ''Part'', position = 4\<rparr>,
      \<lparr>stype = TypeImage, content = js ''c3'', position = 5\<rparr>,
      \<lparr>stype = TypeImage, content = js ''c4'', position = 6\<rparr>])
     = [js ''c1'', js ''c2'', js ''c3'', js ''c4'']
   \<and> filter isCaptionBlock (processContentSections
     [\<lparr>stype = TypeImage, content = js ''c1'', position = 1\<rparr>,
      \<lparr>stype = TypeText, content = js ''words'', position = 2\<rparr>,
      \<lparr>stype = TypeImage, content = js ''c2'', position = 3\<rparr>,
      \<lparr>stype = TypeSubtitle, content = js ''Part'', position = 4\<rparr>,
      \<lparr>stype = TypeImage, content = js ''c3'', position = 5\<rparr>,
      \<lparr>stype = TypeImage, content = js ''c4'', position = 6\<rparr>]
     DoubleImageWithCaption (js ''education'')) =
     [captionBlock (js ''education'') 1 (js ''c1'') (js ''c2''),
      captionBlock (js ''education'') 3 (js ''c3'') (js ''c4''),
      captionBlock (js ''education'') 5 [] [],
      captionBlock (js ''education'') 7 [] []]"
proof -
  have h: "map content (filter (\<lambda>sec. stype sec = TypeImage)
     [\<lparr>stype = TypeImage, content = js ''c1'', position = 1\<rparr>,
      \<lparr>stype = TypeText, content = js ''words'', position = 2\<rparr>,
      \<lparr>stype = TypeImage, content = js ''c2'', position = 3\<rparr>,
      \<lparr>stype = TypeSubtitle, content = js ''Part'', position = 4\<rparr>,
      \<lparr>stype = TypeImage, content = js ''c3'', position = 5\<rparr>,
      \<lparr>stype = TypeImage, content = js ''c4'', position = 6\<rparr>])
     = [js ''c1'', js ''c2'', js ''c3'', js ''c4'']"
    by simp
  show ?thesis
    using h caption_pairs_of_four_images [OF h, of "js ''education''"]
    by blast
qed

text \<open>
  Claim C3, at a document of two image sections (the education template renders it
  under \<open>'double-image-with-caption'\<close>). The first block takes both captions; the
  second block, with the image index 3, is given two empty captions and shows the
  default captions numbered \<open>0x2462\<close> (circled three) and \<open>0x2461\<close> (circled two):
  the number of the second slot is \<open>0x2460 + startIndex % imageSources.length\<close>, where
  that of the first is \<open>0x2460 + (startIndex - 1)\<close>.
\<close>

theorem second_block_default_caption_numbers:
  "processContentSections
     [\<lparr>stype = TypeImage, content = js ''a'', position = 1\<rparr>,
      \<lparr>stype = TypeImage, content = js ''b'', position = 2\<rparr>]
     DoubleImageWithCaption (js ''education'') =
   [ImageWithCaptionBlock (imageSources ! 0) (imageSources ! 1) (js ''a'') (js ''b''),
    ImageWithCaptionBlock (imageSources ! 0) (imageSources ! 1)
      [0x2462, 0x20, 0x56FE, 0x6CE8] [0x2461, 0x20, 0x56FE, 0x6CE8]]"
proof -
  have b1: "getImageWithCaptionBlock (Suc 0) (js ''a'') (js ''b'') =
      ImageWithCaptionBlock (imageSources ! 0) (imageSources ! 1) (js ''a'') (js ''b'')"
    using getImageWithCaptionBlock_odd [of 0 "js ''a''" "js ''b''"]
    by (simp add: js_or_def js_def)
  have b3: "getImageWithCaptionBlock (Suc (Suc (Suc 0))) [] [] =
      ImageWithCaptionBlock (imageSources ! 0) (imageSources ! 1)
        [0x2462, 0x20, 0x56FE, 0x6CE8] [0x2461, 0x20, 0x56FE, 0x6CE8]"
    using getImageWithCaptionBlock_odd [of 1 "[]" "[]"]
    by (simp add: js_or_def defaultCaption_def fromCharCode_def numeral_3_eq_3)
  have neq: "js ''education'' \<noteq> js ''creative''"
    by (simp add: js_def)
  show ?thesis
    unfolding processContentSections_def processSection_def Let_def
    by (simp add: b1 b3 neq)
qed

text \<open>
  Claim C7 as stated fails: with one image section whose caption is \<open>a\<close>, the first
  slot of the block shows \<open>a\<close>, which is no default caption; only the second slot
  shows one.
\<close>

theorem single_image_first_slot_keeps_caption:
  "map displayCaptions
     (filter isCaptionBlock
        (processContentSections [\<lparr>stype = TypeImage, content = js ''a'', position = 1\<rparr>]
           DoubleImageWithCaption (js ''business'')))
     = [[js ''a'', [0x2461, 0x20, 0x56FE, 0x6CE8]]]
   \<and> \<not> isDefaultCaption (js ''a'')"
proof -
  have "filter isCaptionBlock
          (processContentSections [\<lparr>stype = TypeImage, content = js ''a'', position = 1\<rparr>]
             DoubleImageWithCaption (js ''business''))
        = [captionBlock (js ''business'') (Suc (2 * 0)) (js ''a'') []]"
    unfolding processContentSections_captionBlocks by (simp add: captionAt_def)
  then show ?thesis
    using displayCaptions_captionBlock_odd [of "js ''business''" 0 "js ''a''" "[]"]
    by (simp add: js_or_def defaultCaption_def fromCharCode_def isDefaultCaption_def js_def)
qed

text \<open>
  Claim C7, amended. When a document has exactly one image section, of caption \<open>c\<close>,
  rendering under \<open>'double-image-with-caption'\<close> gives exactly one caption block. Its
  first slot shows \<open>c\<close>, or the default caption numbered \<open>0x2460\<close> (circled one) when
  \<open>c\<close> is empty; its second slot shows the default caption numbered \<open>0x2461\<close>
  (circled two).
\<close>

theorem single_image_caption_slots:
  assumes "map content (filter (\<lambda>sec. stype sec = TypeImage) secs) = [c]"
  shows "map displayCaptions
           (filter isCaptionBlock
              (processContentSections secs DoubleImageWithCaption templateId)) =
         [[if c = [] then [0x2460, 0x20, 0x56FE, 0x6CE8] else c,
           [0x2461, 0x20, 0x56FE, 0x6CE8]]]
       \<and> isDefaultCaption [0x2460, 0x20, 0x56FE, 0x6CE8]
       \<and> isDefaultCaption [0x2461, 0x20, 0x56FE, 0x6CE8]"
proof -
  have n: "length (filter (\<lambda>sec. stype sec = TypeImage) secs) = 1"
    using arg_cong [OF assms, of length] by simp
  have "filter isCaptionBlock (processContentSections secs DoubleImageWithCaption templateId) =
          [captionBlock templateId (Suc (2 * 0)) c []]"
    unfolding processContentSections_captionBlocks n assms
    by (simp add: captionAt_def)
  then show ?thesis
    using displayCaptions_captionBlock_odd [of templateId 0 c "[]"]
    by (simp add: js_or_def defaultCaption_def fromCharCode_def isDefaultCaption_def)
qed

theorem single_image_caption_slots_witness:
  "map content (filter (\<lambda>sec. stype sec = TypeImage)
      [\<lparr>stype = TypeText, content = js ''words'', position = 1\<rparr>,
       \<lparr>stype = TypeImage, content = js ''a'', position = 2\<rparr>]) = [js ''a'']
   \<and> map displayCaptions
        (filter isCaptionBlock
           (processContentSections
              [\<lparr>stype = TypeText, content = js ''words'', position = 1\<rparr>,
               \<lparr>stype = TypeImage, content = js ''a'', position = 2\<rparr>]
              DoubleImageWithCaption (js ''creative''))) =
       [[js ''a'', [0x2461, 0x20, 0x56FE, 0x6CE8]]]"
proof -
  have h: "map content (filter (\<lambda>sec. stype sec = TypeImage)
      [\<lparr>stype = TypeText, content = js ''words'', position = 1\<rparr>,
       \<lparr>stype = TypeImage, content = js ''a'', position = 2\<rparr>]) = [js ''a'']"
    by simp
  have a: "js ''a'' \<noteq> []"
    by (simp add: js_def)
  show ?thesis
    using h single_image_caption_slots [OF h, of "js ''creative''"] a
    by simp
qed

section \<open>The template repository\<close>

subsection \<open>The object of templates\<close>

lemma key_in: "(k, t) \<in> set obj \<Longrightarrow> k \<in> fst ` set obj"
  by force

lemma set_Object_keys: "set (Object_keys obj) = set (map fst obj)"
  by (auto simp add: Object_keys_def)

lemma length_Object_keys: "length (Object_keys obj) = length obj"
  using sum_length_filter_compl [of isArrayIndex "map fst obj"]
  by (simp add: Object_keys_def)

lemma getProperty_own:
  "k \<in> set (map fst obj) \<Longrightarrow> \<exists>t. getProperty obj k = Obj t"
proof -
  assume "k \<in> set (map fst obj)"
  then have "map_of obj k \<noteq> None"
    by (simp add: map_of_eq_None_iff)
  then show ?thesis
    by (auto simp add: getProperty_def)
qed

lemma getProperty_not_own:
  "k \<notin> set (map fst obj) \<Longrightarrow>
   getProperty obj k = (if k \<in> set objectPrototype then Proto else Undefined)"
proof -
  assume "k \<notin> set (map fst obj)"
  then have "map_of obj k = None"
    by (simp add: map_of_eq_None_iff)
  then show ?thesis
    by (simp add: getProperty_def)
qed

lemma truthy_getProperty:
  "truthy (getProperty obj k) \<longleftrightarrow> k \<in> set (map fst obj) \<or> k \<in> set objectPrototype"
proof (cases "k \<in> set (map fst obj)")
  case True
  then show ?thesis using getProperty_own [OF True] by auto
next
  case False
  then show ?thesis by (simp add: getProperty_not_own)
qed

lemma map_fst_deleteProperty:
  "map fst (deleteProperty obj k) = filter (\<lambda>k'. k' \<noteq> k) (map fst obj)"
  by (induction obj) (auto simp add: deleteProperty_def)

lemma map_fst_setProperty:
  "map fst (setProperty obj k t) =
     (if k \<in> set (map fst obj) then map fst obj else map fst obj @ [k])"
  by (induction obj) (auto intro: key_in)

lemma length_setProperty: "length obj \<le> length (setProperty obj k t)"
  using arg_cong [OF map_fst_setProperty [of obj k t], of length]
  by (simp split: if_splits)

lemma remaining_nonempty:
  assumes "distinct (map fst obj)" and "length obj > 1"
  shows "filter (\<lambda>k'. k' \<noteq> k) (map fst obj) \<noteq> []"
proof -
  obtain a b rest where obj: "obj = a # b # rest"
    using assms(2) by (cases obj; cases "tl obj") auto
  with assms(1) have "fst a \<noteq> fst b" by auto
  then have "fst a \<noteq> k \<or> fst b \<noteq> k" by auto
  then show ?thesis
    by (auto simp add: obj)
qed

subsection \<open>The invariant under the methods\<close>

text \<open>
  A method that throws does so before it assigns anything, so an error leaves the
  repository as it was: in the model a result \<open>Inl e\<close> carries no new state.
  \<open>addTemplate\<close>, \<open>removeTemplate\<close> and \<open>createCustomTemplate\<close> keep the invariant.
\<close>

lemma addTemplate_invariant:
  assumes "registryInvariant repo" and "addTemplate repo t = Inr repo'"
  shows "registryInvariant repo'"
proof -
  from assms(2) obtain t' where
    repo': "repo' = repo\<lparr>templates := setProperty (templates repo) (tid t') t'\<rparr>"
    by (auto simp add: addTemplate_def split: option.splits if_splits)
  show ?thesis using assms(1)
    using length_setProperty [of "templates repo" "tid t'" t']
    by (auto simp add: registryInvariant_def repo' set_Object_keys length_Object_keys
          map_fst_setProperty intro: key_in split: option.splits)
qed

text \<open>\<open>setDefaultTemplate\<close> keeps the invariant for every id that is a key of
  \<open>templates\<close> or is not the name of a member of \<open>Object.prototype\<close>.\<close>

lemma setDefaultTemplate_invariant:
  assumes "registryInvariant repo" and "setDefaultTemplate repo k = Inr repo'"
    and "k \<in> set (Object_keys (templates repo)) \<or> k \<notin> set objectPrototype"
  shows "registryInvariant repo'"
  using assms
  by (auto simp add: registryInvariant_def setDefaultTemplate_def truthy_getProperty
        set_Object_keys intro: key_in split: if_splits)

lemma removeTemplate_invariant:
  assumes inv: "registryInvariant repo" and rm: "removeTemplate repo k = Inr repo'"
  shows "registryInvariant repo'"
proof -
  from rm have many: "length (templates repo) > 1"
    by (auto simp add: removeTemplate_def length_Object_keys split: if_splits)
  from inv have dist: "distinct (map fst (templates repo))"
    by (simp add: registryInvariant_def)
  let ?rest = "deleteProperty (templates repo) k"
  have ne: "map fst ?rest \<noteq> []"
    using remaining_nonempty [OF dist many, of k] by (simp add: map_fst_deleteProperty)
  then have ne': "Object_keys ?rest \<noteq> []"
    using length_Object_keys [of ?rest] by auto
  have ts: "templates repo' = ?rest"
    using rm by (auto simp add: removeTemplate_def Let_def split: if_splits)
  have d1: "distinct (map fst ?rest)"
    using dist by (simp add: map_fst_deleteProperty)
  have d2: "length (Object_keys ?rest) \<ge> 1"
    using ne' by (cases "Object_keys ?rest") auto
  show ?thesis
  proof (cases "defaultTemplate repo = Some k")
    case True
    then have "defaultTemplate repo' = Some (Object_keys ?rest ! 0)"
      using rm ne' by (auto simp add: removeTemplate_def Let_def split: if_splits)
    moreover have "Object_keys ?rest ! 0 \<in> set (Object_keys ?rest)"
      using ne' by (cases "Object_keys ?rest") auto
    ultimately show ?thesis
      using d1 d2 by (simp add: registryInvariant_def ts)
  next
    case False
    then have same: "defaultTemplate repo' = defaultTemplate repo"
      using rm by (auto simp add: removeTemplate_def Let_def split: if_splits)
    from inv obtain d where d: "defaultTemplate repo = Some d"
      and din: "d \<in> set (map fst (templates repo))"
      by (auto simp add: registryInvariant_def set_Object_keys split: option.splits)
    from False d have "d \<noteq> k" by simp
    with din have "d \<in> set (Object_keys ?rest)"
      by (simp add: set_Object_keys map_fst_deleteProperty)
    then show ?thesis
      using d1 d2 d same by (simp add: registryInvariant_def ts)
  qed
qed

text \<open>Removing the only template fails; removing the default template makes another
  key of the remaining templates the default.\<close>

lemma removeTemplate_sole:
  assumes "length (templates repo) \<le> 1" and "k \<noteq> []"
    and "k \<in> set (Object_keys (templates repo))"
  shows "removeTemplate repo k = Inl LastTemplate"
  using assms
  by (simp add: removeTemplate_def truthy_getProperty set_Object_keys length_Object_keys)

lemma removeTemplate_default:
  assumes inv: "registryInvariant repo" and rm: "removeTemplate repo k = Inr repo'"
    and d: "defaultTemplate repo = Some k"
  shows "\<exists>d. defaultTemplate repo' = Some d \<and> d \<noteq> k
            \<and> d \<in> set (Object_keys (templates repo'))"
proof -
  have inv': "registryInvariant repo'"
    using removeTemplate_invariant [OF inv rm] .
  have ts: "templates repo' = deleteProperty (templates repo) k"
    using rm by (auto simp add: removeTemplate_def Let_def split: if_splits)
  from inv' obtain d' where d': "defaultTemplate repo' = Some d'"
    and din: "d' \<in> set (Object_keys (templates repo'))"
    by (auto simp add: registryInvariant_def split: option.splits)
  from din have "d' \<noteq> k"
    by (simp add: ts set_Object_keys map_fst_deleteProperty)
  with d' din show ?thesis by blast
qed

lemma createCustomTemplate_invariant:
  assumes "registryInvariant repo" and "createCustomTemplate repo config = Inr (repo', t)"
  shows "registryInvariant repo'"
proof -
  from assms(2) obtain t' where "addTemplate repo (Some t') = Inr repo'"
    by (auto simp add: createCustomTemplate_def Let_def split: if_splits sum.splits)
  then show ?thesis
    using addTemplate_invariant [OF assms(1)] by blast
qed

subsection \<open>The repository of the constructor\<close>

lemma constructor_keys:
  "map fst (templates constructor) =
     [js ''business'', js ''simple'', js ''education'', js ''creative'']"
  by (simp add: constructor_def)

lemma constructor_Object_keys:
  "Object_keys (templates constructor) =
     [js ''business'', js ''simple'', js ''education'', js ''creative'']"
  by (simp add: Object_keys_def constructor_keys isArrayIndex_def digit_def js_def)

lemma constructor_invariant: "registryInvariant constructor"
  unfolding registryInvariant_def constructor_Object_keys constructor_keys
  by (simp add: constructor_def js_def)

lemma constructor_inherited: "js ''constructor'' \<in> set objectPrototype"
  by (simp add: objectPrototype_def)

text \<open>
  Claim C4, at the id \<open>constructor\<close>. \<open>setDefaultTemplate\<close> tests
  \<open>this.templates[templateId]\<close> for truth, and \<open>this.templates['constructor']\<close> is the
  function \<open>Object\<close>, inherited from \<open>Object.prototype\<close>. On the repository of the
  constructor, where the invariant holds, the call makes \<open>constructor\<close> the default
  template, which is the key of no template: the invariant no longer holds.
\<close>

theorem setDefaultTemplate_inherited_name_breaks_invariant:
  "registryInvariant constructor
   \<and> setDefaultTemplate constructor (js ''constructor'') =
       Inr (constructor\<lparr>defaultTemplate := Some (js ''constructor'')\<rparr>)
   \<and> \<not> registryInvariant (constructor\<lparr>defaultTemplate := Some (js ''constructor'')\<rparr>)"
proof -
  have a: "js ''constructor'' \<notin> set [js ''business'', js ''simple'', js ''education'', js ''creative'']"
    by (simp add: js_def)
  have t: "truthy (getProperty (templates constructor) (js ''constructor''))"
    by (simp add: truthy_getProperty constructor_inherited)
  have n: "\<not> registryInvariant (constructor\<lparr>defaultTemplate := Some (js ''constructor'')\<rparr>)"
    using a by (simp add: registryInvariant_def constructor_Object_keys)
  show ?thesis
    using constructor_invariant t n by (simp add: setDefaultTemplate_def)
qed

text \<open>After that call \<open>applyTemplate\<close> without a template id fails: the default
  template it reads has no \<open>selectTemplate\<close>.\<close>

lemma default_unusable_after:
  "applyTemplate (constructor\<lparr>defaultTemplate := Some (js ''constructor'')\<rparr>) cont None =
     Inl (ApplyFailed TypeError)"
proof -
  have "js ''constructor'' \<notin> set (map fst (templates constructor))"
    unfolding constructor_keys by (simp add: js_def)
  then have "getProperty (templates constructor) (js ''constructor'') = Proto"
    by (simp add: getProperty_not_own constructor_inherited)
  then show ?thesis
    by (simp add: applyTemplate_def getDefaultTemplate_def propertyKey_def)
qed

text \<open>
  Claim C5 as stated fails: for the id \<open>missing\<close>, which is the key of no template,
  \<open>setDefaultTemplate\<close> returns without an error and leaves the repository as it was.
\<close>

theorem setDefaultTemplate_absent_id_no_error:
  "js ''missing'' \<notin> set (Object_keys (templates constructor))
   \<and> setDefaultTemplate constructor (js ''missing'') = Inr constructor"
proof -
  have a: "js ''missing'' \<notin> set (map fst (templates constructor))"
    unfolding constructor_keys by (simp add: js_def)
  have b: "js ''missing'' \<notin> set objectPrototype"
    by (simp add: objectPrototype_def js_def)
  show ?thesis
    using a b by (simp add: setDefaultTemplate_def truthy_getProperty set_Object_keys)
qed

text \<open>
  Claim C5, amended. \<open>setDefaultTemplate\<close> raises no error for any id. For the key
  of a template it makes that key the default template. For an id that is neither the
  key of a template nor the name of a member of \<open>Object.prototype\<close> it leaves the
  repository as it was.
\<close>

theorem setDefaultTemplate_behaviour:
  "(\<exists>repo'. setDefaultTemplate repo k = Inr repo')
   \<and> (k \<in> set (Object_keys (templates repo)) \<longrightarrow>
        setDefaultTemplate repo k = Inr (repo\<lparr>defaultTemplate := Some k\<rparr>))
   \<and> (k \<notin> set (Object_keys (templates repo)) \<and> k \<notin> set objectPrototype \<longrightarrow>
        setDefaultTemplate repo k = Inr repo)"
  by (simp add: setDefaultTemplate_def truthy_getProperty set_Object_keys)

theorem setDefaultTemplate_behaviour_witness:
  "js ''simple'' \<in> set (Object_keys (templates constructor))
   \<and> setDefaultTemplate constructor (js ''simple'') =
       Inr (constructor\<lparr>defaultTemplate := Some (js ''simple'')\<rparr>)
   \<and> js ''missing'' \<notin> set (Object_keys (templates constructor))
   \<and> js ''missing'' \<notin> set objectPrototype
   \<and> setDefaultTemplate constructor (js ''missing'') = Inr constructor"
proof -
  have a: "js ''simple'' \<in> set (Object_keys (templates constructor))"
    by (simp add: constructor_Object_keys)
  have b: "js ''missing'' \<notin> set (Object_keys (templates constructor))"
    by (simp add: constructor_Object_keys js_def)
  have c: "js ''missing'' \<notin> set objectPrototype"
    by (simp add: objectPrototype_def js_def)
  show ?thesis
    using a b c setDefaultTemplate_behaviour [of constructor "js ''simple''"]
      setDefaultTemplate_behaviour [of constructor "js ''missing''"]
    by blast
qed

section \<open>Selecting and applying a template\<close>

lemma getTemplateById_builtin:
  "getTemplateById constructor (js ''business'') =
     Obj \<lparr>tid = js ''business'', tname = [0x5546, 0x52A1, 0x98CE, 0x683C],
           description = [0x9002, 0x7528, 0x4E8E, 0x5546, 0x52A1, 0x7C7B, 0x6587, 0x7AE0,
             0x7684, 0x6A21, 0x677F, 0x98CE, 0x683C],
           selectTemplate = Function selectBusinessTemplate\<rparr>"
  by (simp add: getTemplateById_def getProperty_def constructor_def js_def)

text \<open>
  Claim C8. Calling \<open>selectTemplate\<close> of each template of the constructor with an image
  count \<open>n\<close>: business and creative give single-image for 0, double-image-with-caption
  for 1 and 2, double-image-no-caption from 3 on; simple gives single-image always;
  education gives single-image for 0 and 1 and double-image-with-caption from 2 on.
\<close>

theorem builtin_selectTemplate_table:
  "callSelectTemplate (getTemplateById constructor (js ''business'')) n =
     Inr (if n = 0 then SingleImage
          else if n \<le> 2 then DoubleImageWithCaption else DoubleImageNoCaption, js ''business'')
   \<and> callSelectTemplate (getTemplateById constructor (js ''creative'')) n =
     Inr (if n = 0 then SingleImage
          else if n \<le> 2 then DoubleImageWithCaption else DoubleImageNoCaption, js ''creative'')
   \<and> callSelectTemplate (getTemplateById constructor (js ''simple'')) n =
     Inr (SingleImage, js ''simple'')
   \<and> callSelectTemplate (getTemplateById constructor (js ''education'')) n =
     Inr (if n \<le> 1 then SingleImage else DoubleImageWithCaption, js ''education'')"
  by (simp add: getTemplateById_def getProperty_def constructor_def js_def
        selectBusinessTemplate_def selectCreativeTemplate_def selectSimpleTemplate_def
        selectEducationTemplate_def)

theorem builtin_selectTemplate_table_witness:
  "callSelectTemplate (getTemplateById constructor (js ''business'')) 0 =
     Inr (SingleImage, js ''business'')
   \<and> callSelectTemplate (getTemplateById constructor (js ''business'')) 2 =
     Inr (DoubleImageWithCaption, js ''business'')
   \<and> callSelectTemplate (getTemplateById constructor (js ''business'')) 3 =
     Inr (DoubleImageNoCaption, js ''business'')
   \<and> callSelectTemplate (getTemplateById constructor (js ''education'')) 1 =
     Inr (SingleImage, js ''education'')
   \<and> callSelectTemplate (getTemplateById constructor (js ''education'')) 2 =
     Inr (DoubleImageWithCaption, js ''education'')"
  using builtin_selectTemplate_table [of 0] builtin_selectTemplate_table [of 1]
    builtin_selectTemplate_table [of 2] builtin_selectTemplate_table [of 3]
  by simp

lemma callSelectTemplate_not_own:
  "k \<notin> set (map fst (templates repo)) \<Longrightarrow>
   callSelectTemplate (getTemplateById repo k) n = Inl TypeError"
  by (simp add: getTemplateById_def getProperty_not_own)

lemma callSelectTemplate_getTemplateById:
  "callSelectTemplate (getTemplateById repo k) n =
   callSelectTemplate (getProperty (templates repo) k) n"
  by (cases "getProperty (templates repo) k") (simp_all add: getTemplateById_def)

lemma applyTemplate_truthy_id:
  "k \<noteq> [] \<Longrightarrow>
   applyTemplate repo cont (Some k) =
     (case callSelectTemplate (getProperty (templates repo) k)
             (length (filter (\<lambda>s. stype s = TypeImage) (sections cont))) of
        Inl e \<Rightarrow> Inl (ApplyFailed e)
      | Inr (templateType, template_id) \<Rightarrow> Inr (generateHTML cont templateType template_id))"
  by (simp add: applyTemplate_def callSelectTemplate_getTemplateById)

lemma applyTemplate_falsy_id:
  "templateId = None \<or> templateId = Some [] \<Longrightarrow>
   applyTemplate repo cont templateId =
     (case callSelectTemplate (getProperty (templates repo) (propertyKey (defaultTemplate repo)))
             (length (filter (\<lambda>s. stype s = TypeImage) (sections cont))) of
        Inl e \<Rightarrow> Inl (ApplyFailed e)
      | Inr (templateType, template_id) \<Rightarrow> Inr (generateHTML cont templateType template_id))"
  by (auto simp add: applyTemplate_def getDefaultTemplate_def)

text \<open>
  Claim C10. With a non-empty \<open>templateId\<close> that is the key of no template,
  \<open>applyTemplate\<close> fails: \<open>getTemplateById\<close> gives \<open>null\<close> (or an inherited member of
  \<open>Object.prototype\<close>), on which \<open>selectTemplate\<close> cannot be called. With a non-empty
  \<open>templateId\<close> the result does not depend on the default template at all; without
  one, or with the empty string, the result is that of the default template.
\<close>

theorem applyTemplate_unknown_id_throws:
  "(k \<noteq> [] \<and> k \<notin> set (Object_keys (templates repo)) \<longrightarrow>
      applyTemplate repo cont (Some k) = Inl (ApplyFailed TypeError))
   \<and> (k \<noteq> [] \<longrightarrow>
      applyTemplate (repo\<lparr>defaultTemplate := d\<rparr>) cont (Some k) = applyTemplate repo cont (Some k))
   \<and> (defaultTemplate repo = Some d' \<and> d' \<noteq> [] \<longrightarrow>
      applyTemplate repo cont None = applyTemplate repo cont (Some d')
      \<and> applyTemplate repo cont (Some []) = applyTemplate repo cont (Some d'))"
proof (intro conjI impI)
  assume "k \<noteq> [] \<and> k \<notin> set (Object_keys (templates repo))"
  then show "applyTemplate repo cont (Some k) = Inl (ApplyFailed TypeError)"
    by (simp add: applyTemplate_def callSelectTemplate_not_own set_Object_keys)
next
  assume "k \<noteq> []"
  then show "applyTemplate (repo\<lparr>defaultTemplate := d\<rparr>) cont (Some k) =
      applyTemplate repo cont (Some k)"
    by (simp add: applyTemplate_truthy_id)
next
  assume a: "defaultTemplate repo = Some d' \<and> d' \<noteq> []"
  then show "applyTemplate repo cont None = applyTemplate repo cont (Some d')"
    by (simp add: applyTemplate_truthy_id applyTemplate_falsy_id propertyKey_def)
  from a show "applyTemplate repo cont (Some []) = applyTemplate repo cont (Some d')"
    by (simp add: applyTemplate_truthy_id applyTemplate_falsy_id propertyKey_def)
qed

theorem applyTemplate_unknown_id_throws_witness:
  "js ''fancy'' \<noteq> [] \<and> js ''fancy'' \<notin> set (Object_keys (templates constructor))
   \<and> applyTemplate constructor \<lparr>title = js ''Title'', sections = []\<rparr> (Some (js ''fancy''))
       = Inl (ApplyFailed TypeError)
   \<and> applyTemplate (constructor\<lparr>defaultTemplate := Some (js ''simple'')\<rparr>)
        \<lparr>title = js ''Title'', sections = []\<rparr> (Some (js ''fancy''))
       = applyTemplate constructor \<lparr>title = js ''Title'', sections = []\<rparr> (Some (js ''fancy''))
   \<and> defaultTemplate constructor = Some (js ''business'') \<and> js ''business'' \<noteq> []
   \<and> applyTemplate constructor \<lparr>title = js ''Title'', sections = []\<rparr> None
       = applyTemplate constructor \<lparr>title = js ''Title'', sections = []\<rparr> (Some (js ''business''))
   \<and> applyTemplate constructor \<lparr>title = js ''Title'', sections = []\<rparr> (Some [])
       = applyTemplate constructor \<lparr>title = js ''Title'', sections = []\<rparr> (Some (js ''business''))"
proof -
  have a: "js ''fancy'' \<noteq> []" "js ''business'' \<noteq> []"
    by (simp_all add: js_def)
  have b: "js ''fancy'' \<notin> set (Object_keys (templates constructor))"
    by (simp add: constructor_Object_keys js_def)
  have c: "defaultTemplate constructor = Some (js ''business'')"
    by (simp add: constructor_def)
  show ?thesis
    using a b c
      applyTemplate_unknown_id_throws [of "js ''fancy''" constructor
        "\<lparr>title = js ''Title'', sections = []\<rparr>" "Some (js ''simple'')" "js ''business''"]
    by blast
qed

text \<open>An instance: a document with a title and no section, under the default template.\<close>

lemma applyTemplate_default_example:
  "applyTemplate constructor \<lparr>title = js ''Title'', sections = []\<rparr> None =
     Inr [HeaderImageBlock, ContainerOpen, TitleBlock (js ''Title''), Divider,
          ContainerClose, FooterBlock]"
proof -
  have "getProperty (templates constructor) (js ''business'') =
     Obj \<lparr>tid = js ''business'', tname = [0x5546, 0x52A1, 0x98CE, 0x683C],
           description = [0x9002, 0x7528, 0x4E8E, 0x5546, 0x52A1, 0x7C7B, 0x6587, 0x7AE0,
             0x7684, 0x6A21, 0x677F, 0x98CE, 0x683C],
           selectTemplate = Function selectBusinessTemplate\<rparr>"
    by (simp add: getProperty_def constructor_def js_def)
  moreover have "js ''business'' \<noteq> js ''creative''" "js ''Title'' \<noteq> []"
    by (simp_all add: js_def)
  moreover have "defaultTemplate constructor = Some (js ''business'')"
    by (simp add: constructor_def)
  ultimately show ?thesis
    by (simp add: applyTemplate_def getDefaultTemplate_def propertyKey_def generateHTML_def
          getTitleBlock_def processContentSections_def)
qed

end
